theory Spec2Isabelle
  imports Main "HOL-Library.Word" "HOL-Library.Char_ord" "HOL-Library.List_Lexorder"
    "HOL-Library.Multiset"
begin

unbundle bit_operations_syntax

section \<open>Strings and bytes\<close>

text \<open>
  A JavaScript string is modelled as a \<open>string\<close>: a list of code units, here restricted
  to the code units 0..255. \<open>charCodeAt\<close> reads the code unit at an index; an index out
  of range yields NaN in JavaScript, which the bitwise operators read as 0.
  The bitwise operators of JavaScript work on 32-bit integers.
\<close>

type_synonym byte = "8 word"

definition charCodeAt :: "string \<Rightarrow> nat \<Rightarrow> 32 word" where
  "charCodeAt s i = (if i < length s then of_char (s ! i) else 0)"

section \<open>lib/hmac.js\<close>

subsection \<open>timingSafeEqual\<close>

text \<open>
  The body of the \<open>for\<close> loop of \<open>timingSafeEqual\<close>: \<open>i\<close> is the loop counter and
  \<open>result\<close> the accumulator. The loop has no \<open>break\<close> and no \<open>return\<close>.
\<close>

function timingSafeEqual_loop :: "string \<Rightarrow> string \<Rightarrow> nat \<Rightarrow> 32 word \<Rightarrow> 32 word" where
  "timingSafeEqual_loop a b i result =
     (if i < length a
      then timingSafeEqual_loop a b (i + 1) (result OR (charCodeAt a i XOR charCodeAt b i))
      else result)"
  by pat_completeness auto
termination
  by (relation "measure (\<lambda>(a, b, i, result). length a - i)") auto

declare timingSafeEqual_loop.simps [simp del]

definition timingSafeEqual :: "string \<Rightarrow> string \<Rightarrow> bool" where
  "timingSafeEqual a b =
     (if length a \<noteq> length b then False
      else timingSafeEqual_loop a b 0 0 = 0)"

subsection \<open>Digest encodings\<close>

text \<open>
  \<open>byte.toString(16).padStart(2, '0')\<close>: the digits of a byte in base 16, lower case,
  without leading zeros, then padded on the left to two characters.
\<close>

definition hexDigits :: string where
  "hexDigits = ''0123456789abcdef''"

fun toString16 :: "nat \<Rightarrow> string" where
  "toString16 n =
     (if n < 16 then [hexDigits ! n]
      else toString16 (n div 16) @ [hexDigits ! (n mod 16)])"

declare toString16.simps [simp del]

definition padStart :: "nat \<Rightarrow> char \<Rightarrow> string \<Rightarrow> string" where
  "padStart n c s = replicate (n - length s) c @ s"

definition hexEncode :: "byte list \<Rightarrow> string" where
  "hexEncode hashArray = concat (map (\<lambda>byte. padStart 2 (CHR ''0'') (toString16 (unat byte))) hashArray)"

text \<open>\<open>btoa(String.fromCharCode(...bytes))\<close>: base64 with the standard alphabet and padding.\<close>

definition base64Alphabet :: string where
  "base64Alphabet = ''ABCDEFGHIJKLMNOPQRSTUVWXYZabcdefghijklmnopqrstuvwxyz0123456789+/''"

fun btoa :: "byte list \<Rightarrow> string" where
  "btoa [] = []"
| "btoa [a] =
     [base64Alphabet ! (unat a div 4), base64Alphabet ! ((unat a mod 4) * 16), CHR ''='', CHR ''='']"
| "btoa [a, b] =
     [base64Alphabet ! (unat a div 4), base64Alphabet ! ((unat a mod 4) * 16 + unat b div 16),
      base64Alphabet ! ((unat b mod 16) * 4), CHR ''='']"
| "btoa (a # b # c # rest) =
     [base64Alphabet ! (unat a div 4), base64Alphabet ! ((unat a mod 4) * 16 + unat b div 16),
      base64Alphabet ! ((unat b mod 16) * 4 + unat c div 64), base64Alphabet ! (unat c mod 64)]
     @ btoa rest"

text \<open>
  \<open>TextEncoder.encode\<close>: UTF-8. A code unit below 128 is one byte, a code unit from 128
  to 255 is two bytes.
\<close>

definition encodeCodeUnit :: "char \<Rightarrow> byte list" where
  "encodeCodeUnit c =
     (if (of_char c :: nat) < 128 then [of_char c]
      else [of_nat (192 + (of_char c :: nat) div 64), of_nat (128 + (of_char c :: nat) mod 64)])"

definition TextEncoder_encode :: "string \<Rightarrow> byte list" where
  "TextEncoder_encode s = concat (map encodeCodeUnit s)"

subsection \<open>Query parameters and arrays\<close>

text \<open>
  A \<open>URLSearchParams\<close> object is the list of its name/value pairs, in order, already
  percent-decoded. \<open>get\<close> returns the first value of a name, \<open>delete\<close> removes every
  pair of that name, and \<open>Object.fromEntries\<close> keeps the last value of each name.
\<close>

type_synonym params = "(string \<times> string) list"

definition searchParams_get :: "params \<Rightarrow> string \<Rightarrow> string option" where
  "searchParams_get ps name = map_of ps name"

definition searchParams_delete :: "params \<Rightarrow> string \<Rightarrow> params" where
  "searchParams_delete ps name = filter (\<lambda>(key, value). key \<noteq> name) ps"

definition fromEntries :: "params \<Rightarrow> string \<Rightarrow> string option" where
  "fromEntries ps name = map_of (rev ps) name"

text \<open>
  \<open>Array.prototype.sort\<close> with a comparison function is a stable sort: an element goes
  before another when the comparison says so, and elements that compare equal keep
  their order. It is written here as a stable insertion sort.
\<close>

fun insertSorted :: "('a \<Rightarrow> 'a \<Rightarrow> int) \<Rightarrow> 'a \<Rightarrow> 'a list \<Rightarrow> 'a list" where
  "insertSorted cmp x [] = [x]"
| "insertSorted cmp x (y # ys) =
     (if cmp x y \<le> 0 then x # y # ys else y # insertSorted cmp x ys)"

definition array_sort :: "('a \<Rightarrow> 'a \<Rightarrow> int) \<Rightarrow> 'a list \<Rightarrow> 'a list" where
  "array_sort cmp xs = foldr (insertSorted cmp) xs []"

fun array_join :: "string \<Rightarrow> string list \<Rightarrow> string" where
  "array_join sep [] = []"
| "array_join sep [x] = x"
| "array_join sep (x # y # ys) = x @ sep @ array_join sep (y # ys)"

section \<open>JavaScript values read from JSON\<close>

text \<open>
  The handlers read parsed JSON only through property access, truthiness and conversion
  to a string. \<open>JOther\<close> stands for a number, a boolean or an array, of which it keeps
  the truthiness and the string conversion. A value of type \<open>jsval option\<close> is a value
  that may be \<open>undefined\<close> (\<open>None\<close>).
\<close>

datatype jsval =
    JNull
  | JStr string
  | JObj "(string \<times> jsval) list"
  | JOther bool "string option"

fun truthy :: "jsval option \<Rightarrow> bool" where
  "truthy None = False"
| "truthy (Some JNull) = False"
| "truthy (Some (JStr s)) = (s \<noteq> [])"
| "truthy (Some (JObj fields)) = True"
| "truthy (Some (JOther b s)) = b"

text \<open>
  The conversion to a string of a template literal, of \<open>RegExp.prototype.test\<close> and of
  the runtime where it takes a string (a key of a namespace, a header, a method);
  \<open>None\<close> when it throws a TypeError. An object parsed from JSON is converted by
  \<open>Object.prototype.toString\<close>, unless it has a property \<open>toString\<close> of its own: that
  property is not callable, and neither \<open>valueOf\<close> of its own nor
  \<open>Object.prototype.valueOf\<close> yields a primitive, so the conversion throws. An array is
  converted by joining the conversions of its elements, which throws when one of them
  does: this is \<open>JOther b None\<close>.
\<close>

fun toString :: "jsval option \<Rightarrow> string option" where
  "toString None = Some ''undefined''"
| "toString (Some JNull) = Some ''null''"
| "toString (Some (JStr s)) = Some s"
| "toString (Some (JObj fields)) =
     (if map_of fields ''toString'' = None then Some ''[object Object]'' else None)"
| "toString (Some (JOther b s)) = s"

text \<open>A template literal over a string that may be \<open>undefined\<close>.\<close>

fun template :: "string option \<Rightarrow> string" where
  "template None = ''undefined''"
| "template (Some s) = s"

text \<open>Property access \<open>v.name\<close> on a value that is not \<open>null\<close>.\<close>

fun getProperty :: "jsval \<Rightarrow> string \<Rightarrow> jsval option" where
  "getProperty (JObj fields) name = map_of fields name"
| "getProperty v name = None"

section \<open>lib/errors.js, lib/constants.js\<close>

text \<open>
  The three error classes carry a message and a status code. \<open>Exception\<close> is any other
  exception of the runtime (a TypeError, a SyntaxError of \<open>JSON.parse\<close>, a failure of
  \<open>fetch\<close>), with the message the runtime gives it.
\<close>

datatype error =
    AuthenticationError string nat
  | ValidationError string nat
  | ConfigurationError string nat
  | Exception string

fun message :: "error \<Rightarrow> string" where
  "message (AuthenticationError m c) = m"
| "message (ValidationError m c) = m"
| "message (ConfigurationError m c) = m"
| "message (Exception m) = m"

definition STATE_TTL_SECONDS :: nat where "STATE_TTL_SECONDS = 600"
definition API_KEY_TTL_DAYS :: nat where "API_KEY_TTL_DAYS = 90"

definition INVALID_SHOP :: string where "INVALID_SHOP = ''Invalid shop domain''"
definition INVALID_HMAC :: string where "INVALID_HMAC = ''Invalid HMAC signature''"
definition INVALID_STATE :: string where "INVALID_STATE = ''Invalid state parameter''"
definition INVALID_WEBHOOK :: string where "INVALID_WEBHOOK = ''Invalid webhook signature''"
definition APP_NOT_INSTALLED :: string where "APP_NOT_INSTALLED = ''App not installed''"
definition MISSING_AUTH :: string where "MISSING_AUTH = ''Missing or invalid authorization''"
definition INVALID_API_KEY :: string where "INVALID_API_KEY = ''Invalid API key''"
definition MISSING_ENDPOINT :: string where "MISSING_ENDPOINT = ''Missing endpoint parameter''"
definition MISSING_OAUTH_PARAMS :: string where
  "MISSING_OAUTH_PARAMS = ''Missing required OAuth parameters''"
definition FAILED_TOKEN_EXCHANGE :: string where
  "FAILED_TOKEN_EXCHANGE = ''Failed to exchange code for token''"
definition FAILED_PROXY :: string where "FAILED_PROXY = ''Failed to proxy request''"

section \<open>The runtime and the stores\<close>

text \<open>
  An outbound request is kept as its URL, its method, its \<open>X-Shopify-Access-Token\<close>
  header and the value that is serialised as its body; a response as its \<open>ok\<close> flag, its
  status and its body parsed as JSON (\<open>Inl\<close> with the message of the error when
  \<open>response.json()\<close> throws).
\<close>

record fetch_request =
  url :: string
  httpMethod :: string
  token :: "string option"
  payload :: "jsval option"

record fetch_response =
  ok :: bool
  status :: nat
  json :: "string + jsval"

text \<open>
  What the worker takes from its runtime is a parameter of the model:
  \<^item> \<open>hmacSha256 key message\<close> is \<open>crypto.subtle.importKey\<close> followed by
    \<open>crypto.subtle.sign\<close> (HMAC with SHA-256); \<open>None\<close> when either throws;
  \<^item> \<open>localeCompare a b\<close> is \<open>a.localeCompare(b)\<close>: negative, zero or positive;
  \<^item> \<open>JSON_parse\<close> is \<open>JSON.parse\<close>; \<open>Inl\<close> with the message of the SyntaxError when it
    throws;
  \<^item> \<open>randomUUID n\<close> is the result of the \<open>n\<close>-th call of \<open>crypto.randomUUID\<close>;
  \<^item> \<open>upstream\<close> answers a call of \<open>fetch\<close>, given the requests of the calls before it;
    \<open>Inl\<close> with the message of the error when \<open>fetch\<close> throws;
  \<^item> \<open>urlOrigin base\<close> is the scheme and authority of \<open>base\<close>, against which \<open>new URL\<close>
    resolves an absolute path; \<open>None\<close> when \<open>base\<close> is not a URL and \<open>new URL\<close> throws;
  \<^item> \<open>toPrimitiveMessage\<close>, \<open>nullPropertyMessage name\<close> and \<open>invalidUrlMessage\<close> are the
    messages of the TypeErrors that the runtime throws when a value cannot be converted
    to a string, when the property \<open>name\<close> is read from \<open>null\<close>, and when \<open>new URL\<close>
    fails;
  \<^item> \<open>responseStatusMessage code\<close> is the message of the error that \<open>new Response\<close>
    throws when it is given a body and the status \<open>code\<close>, for a status that it refuses.
\<close>

record platform =
  hmacSha256 :: "byte list \<Rightarrow> byte list \<Rightarrow> byte list option"
  localeCompare :: "string \<Rightarrow> string \<Rightarrow> int"
  JSON_parse :: "string \<Rightarrow> string + jsval"
  randomUUID :: "nat \<Rightarrow> string"
  upstream :: "fetch_request list \<Rightarrow> fetch_request \<Rightarrow> string + fetch_response"
  urlOrigin :: "string \<Rightarrow> string option"
  toPrimitiveMessage :: string
  nullPropertyMessage :: "string \<Rightarrow> string"
  invalidUrlMessage :: string
  responseStatusMessage :: "nat \<Rightarrow> string"

text \<open>The configuration variables of the environment.\<close>

record env =
  SHOPIFY_API_KEY :: string
  SHOPIFY_API_SECRET :: string
  OAUTH_SCOPES :: string
  APP_URL :: "string option"
  SHOPIFY_APP_HANDLE :: string
  SHOPIFY_API_VERSION :: string

text \<open>
  A key-value namespace maps a key to its value and, when the value was put with
  \<open>expirationTtl\<close>, the instant at which it expires. There is no sweep: an expired entry
  stays in the map and \<open>get\<close> treats it as absent. The namespaces are assumed to be
  available, so that \<open>get\<close>, \<open>put\<close> and \<open>delete\<close> do not throw on a key that is a
  string; a key that is not a string is converted to one first.

  \<open>SHOPS\<close> holds the MerchantRecord of a shop, \<open>AUTH_STATES\<close> the shop a state token was
  issued for, \<open>API_KEYS\<close> the ClientCredential of a client key. The values are the
  objects that the worker serialises with \<open>JSON.stringify\<close>; the fields \<open>shop\<close> and
  \<open>accessToken\<close> of a ClientCredential are \<open>keyShop\<close> and \<open>keyAccessToken\<close> here, and
  the timestamps are readings of the clock.
\<close>

type_synonym 'v kv = "string \<rightharpoonup> ('v \<times> nat option)"

definition kv_get :: "nat \<Rightarrow> 'v kv \<Rightarrow> string \<Rightarrow> 'v option" where
  "kv_get t m k =
     (case m k of
        None \<Rightarrow> None
      | Some (v, None) \<Rightarrow> Some v
      | Some (v, Some expiry) \<Rightarrow> if t < expiry then Some v else None)"

definition kv_put :: "nat \<Rightarrow> 'v kv \<Rightarrow> string \<Rightarrow> 'v \<Rightarrow> nat option \<Rightarrow> 'v kv" where
  "kv_put t m k v ttl = m(k \<mapsto> (v, map_option (\<lambda>s. t + s) ttl))"

definition kv_delete :: "'v kv \<Rightarrow> string \<Rightarrow> 'v kv" where
  "kv_delete m k = m(k := None)"

record ShopData =
  accessToken :: "jsval option"
  scope :: "jsval option"
  installedAt :: nat

record KeyData =
  keyShop :: "jsval option"
  keyAccessToken :: "jsval option"
  createdAt :: nat

text \<open>
  The world is what outlives a request: the three namespaces, the trace of every store
  access and outbound request in the order they happen, the clock (in seconds) and the
  number of UUIDs drawn so far.
\<close>

datatype namespace = NsShops | NsAuthStates | NsApiKeys

datatype event =
    KvGet namespace string
  | KvPut namespace string
  | KvDelete namespace string
  | Fetch fetch_request

record world =
  SHOPS :: "ShopData kv"
  AUTH_STATES :: "string kv"
  API_KEYS :: "KeyData kv"
  events :: "event list"
  now :: nat
  uuids :: nat

fun fetches :: "event list \<Rightarrow> fetch_request list" where
  "fetches [] = []"
| "fetches (Fetch r # es) = r # fetches es"
| "fetches (e # es) = fetches es"

definition SHOPS_get :: "string \<Rightarrow> world \<Rightarrow> ShopData option \<times> world" where
  "SHOPS_get k w = (kv_get (now w) (SHOPS w) k, w\<lparr>events := events w @ [KvGet NsShops k]\<rparr>)"

definition SHOPS_put :: "string \<Rightarrow> ShopData \<Rightarrow> world \<Rightarrow> world" where
  "SHOPS_put k v w =
     w\<lparr>SHOPS := kv_put (now w) (SHOPS w) k v None, events := events w @ [KvPut NsShops k]\<rparr>"

definition SHOPS_delete :: "string \<Rightarrow> world \<Rightarrow> world" where
  "SHOPS_delete k w =
     w\<lparr>SHOPS := kv_delete (SHOPS w) k, events := events w @ [KvDelete NsShops k]\<rparr>"

definition AUTH_STATES_get :: "string \<Rightarrow> world \<Rightarrow> string option \<times> world" where
  "AUTH_STATES_get k w =
     (kv_get (now w) (AUTH_STATES w) k, w\<lparr>events := events w @ [KvGet NsAuthStates k]\<rparr>)"

definition AUTH_STATES_put :: "string \<Rightarrow> string \<Rightarrow> nat \<Rightarrow> world \<Rightarrow> world" where
  "AUTH_STATES_put k v ttl w =
     w\<lparr>AUTH_STATES := kv_put (now w) (AUTH_STATES w) k v (Some ttl),
       events := events w @ [KvPut NsAuthStates k]\<rparr>"

definition AUTH_STATES_delete :: "string \<Rightarrow> world \<Rightarrow> world" where
  "AUTH_STATES_delete k w =
     w\<lparr>AUTH_STATES := kv_delete (AUTH_STATES w) k,
       events := events w @ [KvDelete NsAuthStates k]\<rparr>"

definition API_KEYS_get :: "string \<Rightarrow> world \<Rightarrow> KeyData option \<times> world" where
  "API_KEYS_get k w =
     (kv_get (now w) (API_KEYS w) k, w\<lparr>events := events w @ [KvGet NsApiKeys k]\<rparr>)"

definition API_KEYS_put :: "string \<Rightarrow> KeyData \<Rightarrow> nat \<Rightarrow> world \<Rightarrow> world" where
  "API_KEYS_put k v ttl w =
     w\<lparr>API_KEYS := kv_put (now w) (API_KEYS w) k v (Some ttl),
       events := events w @ [KvPut NsApiKeys k]\<rparr>"

definition crypto_randomUUID :: "platform \<Rightarrow> world \<Rightarrow> string \<times> world" where
  "crypto_randomUUID P w = (randomUUID P (uuids w), w\<lparr>uuids := uuids w + 1\<rparr>)"

definition fetch :: "platform \<Rightarrow> fetch_request \<Rightarrow> world \<Rightarrow> (string + fetch_response) \<times> world" where
  "fetch P r w = (upstream P (fetches (events w)) r, w\<lparr>events := events w @ [Fetch r]\<rparr>)"

section \<open>lib/hmac.js: the two verifiers\<close>

text \<open>
  \<open>sortedParams\<close> is the string that \<open>verifyShopifyHmac\<close> signs: the parameters without
  \<open>hmac\<close> and \<open>signature\<close>, sorted by key with \<open>localeCompare\<close>, each rendered as
  \<open>key=value\<close>, joined with \<open>&\<close>.
\<close>

definition sortedParams :: "platform \<Rightarrow> params \<Rightarrow> string" where
  "sortedParams P ps =
     (let paramsCopy = searchParams_delete (searchParams_delete ps ''hmac'') ''signature''
      in array_join ''&''
           (map (\<lambda>(key, value). key @ ''='' @ value)
              (array_sort (\<lambda>(a, _) (b, _). localeCompare P a b) paramsCopy)))"

definition verifyShopifyHmac :: "platform \<Rightarrow> params \<Rightarrow> string \<Rightarrow> bool" where
  "verifyShopifyHmac P ps secret =
     (case searchParams_get ps ''hmac'' of
        None \<Rightarrow> False
      | Some providedHmac \<Rightarrow>
          if providedHmac = [] then False
          else (case hmacSha256 P (TextEncoder_encode secret) (TextEncoder_encode (sortedParams P ps)) of
                  None \<Rightarrow> False
                | Some signature \<Rightarrow> timingSafeEqual providedHmac (hexEncode signature)))"

definition verifyWebhookHmac :: "platform \<Rightarrow> string \<Rightarrow> string option \<Rightarrow> string \<Rightarrow> bool" where
  "verifyWebhookHmac P body hmac secret =
     (case hmac of
        None \<Rightarrow> False
      | Some hmac \<Rightarrow>
          if hmac = [] \<or> secret = [] \<or> body = [] then False
          else (case hmacSha256 P (TextEncoder_encode secret) (TextEncoder_encode body) of
                  None \<Rightarrow> False
                | Some signature \<Rightarrow> timingSafeEqual hmac (btoa signature)))"

section \<open>lib/validation.js\<close>

text \<open>
  The regular expression \<open>/^[a-zA-Z0-9][a-zA-Z0-9-]*\.myshopify\.com$/\<close>: the string ends
  with \<open>.myshopify.com\<close>, and what stands before it is one letter or digit followed by
  letters, digits and hyphens.
\<close>

definition isAlnum :: "char \<Rightarrow> bool" where
  "isAlnum c =
     ((CHR ''a'' \<le> c \<and> c \<le> CHR ''z'') \<or> (CHR ''A'' \<le> c \<and> c \<le> CHR ''Z'')
      \<or> (CHR ''0'' \<le> c \<and> c \<le> CHR ''9''))"

definition shopDomainRegex :: "string \<Rightarrow> bool" where
  "shopDomainRegex s =
     (let n = length s - length ''.myshopify.com''; label = take n s
      in length ''.myshopify.com'' < length s \<and> drop n s = ''.myshopify.com''
         \<and> isAlnum (hd label) \<and> list_all (\<lambda>c. isAlnum c \<or> c = CHR ''-'') (tl label))"

text \<open>\<open>isValidShopDomain\<close>: a falsy argument is rejected, anything else is converted to
  a string and tested; \<open>None\<close> when the conversion throws.\<close>

definition isValidShopDomain :: "jsval option \<Rightarrow> bool option" where
  "isValidShopDomain shop =
     (if \<not> truthy shop then Some False else map_option shopDomainRegex (toString shop))"

text \<open>\<open>checkInstallation\<close>: a stored record is a non-empty string, hence truthy.\<close>

definition checkInstallation :: "string \<Rightarrow> world \<Rightarrow> bool \<times> world" where
  "checkInstallation shop w = (case SHOPS_get shop w of (data, w1) \<Rightarrow> (data \<noteq> None, w1))"

section \<open>Requests and responses\<close>

text \<open>
  What the handlers read of a request: the path, origin and query parameters of its
  URL, the \<open>Authorization\<close> and \<open>X-Shopify-Hmac-Sha256\<close> headers, and the text of
  its body. A URL that the worker builds is kept as the part before the query string and
  the query parameters, before percent-encoding.
\<close>

record request =
  pathname :: string
  origin :: string
  searchParams :: params
  authorization :: "string option"
  hmacHeader :: "string option"
  bodyText :: string

datatype location = Url string params

datatype page = LandingPage | AccessDeniedPage string | EmbeddedApp string string

datatype response =
    Redirect location nat
  | JsonResponse jsval nat
  | HtmlResponse page nat
  | TextResponse string nat

type_synonym 'a result = "(error + 'a) \<times> world"

section \<open>lib/utils.js, lib/templates.js\<close>

definition extractApiKey :: "request \<Rightarrow> string option" where
  "extractApiKey req =
     (case authorization req of
        None \<Rightarrow> None
      | Some authHeader \<Rightarrow>
          if authHeader = [] \<or> take 7 authHeader \<noteq> ''Bearer '' then None
          else Some (drop 7 authHeader))"

definition parseJsonBody :: "platform \<Rightarrow> request \<Rightarrow> jsval" where
  "parseJsonBody P req = (case JSON_parse P (bodyText req) of Inl m \<Rightarrow> JObj [] | Inr v \<Rightarrow> v)"

text \<open>
  \<open>createJsonResponse\<close> calls \<open>new Response\<close> with a body, the serialised data. The
  constructor throws a RangeError for a status outside 200..599 and a TypeError for a
  status that allows no body (204, 205, 304; 101 and 103 are already out of the range).
  \<open>returnOrThrow\<close> is \<open>return createJsonResponse(...)\<close> in a handler: the handler returns
  the response, or throws what the constructor threw.
\<close>

definition createJsonResponse :: "platform \<Rightarrow> jsval \<Rightarrow> nat \<Rightarrow> string + response" where
  "createJsonResponse P data code =
     (if code < 200 \<or> 599 < code \<or> code = 204 \<or> code = 205 \<or> code = 304
      then Inl (responseStatusMessage P code)
      else Inr (JsonResponse data code))"

definition returnOrThrow :: "string + response \<Rightarrow> world \<Rightarrow> response result" where
  "returnOrThrow r w = (case r of Inl m \<Rightarrow> (Inl (Exception m), w) | Inr resp \<Rightarrow> (Inr resp, w))"

definition buildShopifyAuthUrl :: "string \<Rightarrow> string \<Rightarrow> string \<Rightarrow> string \<Rightarrow> string \<Rightarrow> location" where
  "buildShopifyAuthUrl shop clientId scopes redirectUri state =
     Url (''https://'' @ shop @ ''/admin/oauth/authorize'')
       [(''client_id'', clientId), (''scope'', scopes), (''redirect_uri'', redirectUri),
        (''state'', state)]"

text \<open>\<open>createInstallRedirect\<close>: \<open>new URL\<close> resolves \<open>/auth?shop=...\<close> against \<open>APP_URL\<close>,
  and throws when \<open>APP_URL\<close> is not set or is not a URL.\<close>

definition createInstallRedirect :: "platform \<Rightarrow> env \<Rightarrow> string \<Rightarrow> error + response" where
  "createInstallRedirect P E shop =
     (case APP_URL E of
        None \<Rightarrow> Inl (Exception (invalidUrlMessage P))
      | Some base \<Rightarrow>
          (case urlOrigin P base of
             None \<Rightarrow> Inl (Exception (invalidUrlMessage P))
           | Some site \<Rightarrow> Inr (Redirect (Url (site @ ''/auth'') [(''shop'', shop)]) 302)))"

section \<open>lib/shopify.js\<close>

definition exchangeCodeForToken :: "platform \<Rightarrow> env \<Rightarrow> string \<Rightarrow> string \<Rightarrow> world \<Rightarrow> jsval result" where
  "exchangeCodeForToken P E shop code w =
     (case fetch P \<lparr>url = ''https://'' @ shop @ ''/admin/oauth/access_token'',
                    httpMethod = ''POST'', token = None,
                    payload = Some (JObj [(''client_id'', JStr (SHOPIFY_API_KEY E)),
                                          (''client_secret'', JStr (SHOPIFY_API_SECRET E)),
                                          (''code'', JStr code)])\<rparr> w of
        (Inl m, w1) \<Rightarrow> (Inl (Exception m), w1)
      | (Inr response, w1) \<Rightarrow>
          if \<not> ok response then (Inl (AuthenticationError FAILED_TOKEN_EXCHANGE 401), w1)
          else (case json response of
                  Inl m \<Rightarrow> (Inl (Exception m), w1)
                | Inr tokenData \<Rightarrow> (Inr tokenData, w1)))"

definition storeShopData :: "platform \<Rightarrow> string \<Rightarrow> jsval \<Rightarrow> world \<Rightarrow> unit result" where
  "storeShopData P shop tokenData w =
     (if tokenData = JNull then (Inl (Exception (nullPropertyMessage P ''access_token'')), w)
      else (Inr (), SHOPS_put shop \<lparr>accessToken = getProperty tokenData ''access_token'',
                                     scope = getProperty tokenData ''scope'',
                                     installedAt = now w\<rparr> w))"

definition webhookTopics :: "string list" where
  "webhookTopics = [''customers/redact'', ''shop/redact'', ''customers/data_request'']"

text \<open>
  One round of the loop of \<open>registerMandatoryWebhooks\<close>: the \<open>try\<close> catches what \<open>fetch\<close>
  throws, and the response is ignored. When the access token cannot be converted to the
  string of a header, \<open>fetch\<close> throws before there is a request.
\<close>

definition registerWebhook :: "platform \<Rightarrow> env \<Rightarrow> string \<Rightarrow> jsval option \<Rightarrow> string \<Rightarrow> world \<Rightarrow> world" where
  "registerWebhook P E shop access_token topic w =
     (case toString access_token of
        None \<Rightarrow> w
      | Some header \<Rightarrow>
          snd (fetch P \<lparr>url = ''https://'' @ shop @ ''/admin/api/'' @ SHOPIFY_API_VERSION E
                              @ ''/webhooks.json'',
                        httpMethod = ''POST'', token = Some header,
                        payload = Some (JObj [(''webhook'',
                          JObj [(''topic'', JStr topic),
                                (''address'', JStr (template (APP_URL E) @ ''/webhooks/'' @ topic))])])\<rparr>
                 w))"

definition registerMandatoryWebhooks :: "platform \<Rightarrow> env \<Rightarrow> string \<Rightarrow> jsval option \<Rightarrow> world \<Rightarrow> world" where
  "registerMandatoryWebhooks P E shop access_token w =
     fold (registerWebhook P E shop access_token) webhookTopics w"

text \<open>
  The URL and the options that \<open>proxyToShopify\<close> passes to \<open>fetch\<close>, in the order in
  which the conversions happen: the template literal of the URL converts the shop and
  the endpoint and throws before \<open>fetch\<close> is called; \<open>fetch\<close> converts the method and
  the header and throws before there is a request. \<open>None\<close> when one of them throws.
\<close>

definition proxyOptions ::
  "env \<Rightarrow> jsval option \<Rightarrow> jsval option \<Rightarrow> jsval option \<Rightarrow> jsval option \<Rightarrow> jsval option
     \<Rightarrow> fetch_request option" where
  "proxyOptions E shop endpoint method data access_token =
     (case toString shop of
        None \<Rightarrow> None
      | Some host \<Rightarrow>
          (case toString endpoint of
             None \<Rightarrow> None
           | Some path \<Rightarrow>
               (case toString method of
                  None \<Rightarrow> None
                | Some verb \<Rightarrow>
                    (case toString access_token of
                       None \<Rightarrow> None
                     | Some header \<Rightarrow>
                         Some \<lparr>url = ''https://'' @ host @ ''/admin/api/'' @ SHOPIFY_API_VERSION E
                                      @ path,
                               httpMethod = verb, token = Some header,
                               payload = (if method \<noteq> Some (JStr ''GET'') \<and> truthy data
                                          then data else None)\<rparr>))))"

definition proxyToShopify ::
  "platform \<Rightarrow> env \<Rightarrow> jsval option \<Rightarrow> jsval option \<Rightarrow> jsval option \<Rightarrow> jsval option \<Rightarrow> jsval option
     \<Rightarrow> world \<Rightarrow> (jsval \<times> nat) result" where
  "proxyToShopify P E shop endpoint method data access_token w =
     (case proxyOptions E shop endpoint method data access_token of
        None \<Rightarrow> (Inl (Exception (toPrimitiveMessage P)), w)
      | Some options \<Rightarrow>
          (case fetch P options w of
             (Inl m, w1) \<Rightarrow> (Inl (Exception m), w1)
           | (Inr response, w1) \<Rightarrow>
               (case json response of
                  Inl m \<Rightarrow> (Inl (Exception m), w1)
                | Inr responseData \<Rightarrow> (Inr (responseData, status response), w1))))"

section \<open>lib/handlers.js\<close>

text \<open>
  A handler takes the world and returns what it throws (\<open>Inl\<close>) or the response it
  returns (\<open>Inr\<close>), with the world it leaves. Console output is not part of the model:
  in \<open>handleRootPath\<close> the result of \<open>isValidHost\<close> only decides what is logged, and the
  embedded page is returned either way. Since the namespaces do not throw, the
  \<open>catch\<close> around the \<open>put\<close> of \<open>handleOAuth\<close> is not reached.
\<close>

definition handleRootPath :: "platform \<Rightarrow> env \<Rightarrow> request \<Rightarrow> world \<Rightarrow> response result" where
  "handleRootPath P E req w =
     (let shop = searchParams_get (searchParams req) ''shop'';
          embedded = searchParams_get (searchParams req) ''embedded'';
          host = searchParams_get (searchParams req) ''host''
      in if \<not> truthy (map_option JStr shop) then (Inr (HtmlResponse LandingPage 200), w)
         else (case isValidShopDomain (map_option JStr shop) of
                 None \<Rightarrow> (Inl (Exception (toPrimitiveMessage P)), w)
               | Some False \<Rightarrow> (Inl (ValidationError INVALID_SHOP 400), w)
               | Some True \<Rightarrow>
                   (case checkInstallation (the shop) w of
                      (isInstalled, w1) \<Rightarrow>
                        if \<not> isInstalled then (createInstallRedirect P E (the shop), w1)
                        else if embedded = Some ''1''
                        then (if \<not> truthy (map_option JStr host)
                              then (Inr (HtmlResponse (AccessDeniedPage (the shop)) 403), w1)
                              else (Inr (HtmlResponse (EmbeddedApp (the shop) (the host)) 200), w1))
                        else (Inr (Redirect (Url (''https://'' @ the shop @ ''/admin/apps/''
                                                  @ SHOPIFY_APP_HANDLE E) []) 302), w1))))"

definition handleOAuth :: "platform \<Rightarrow> env \<Rightarrow> request \<Rightarrow> world \<Rightarrow> response result" where
  "handleOAuth P E req w =
     (let shop = searchParams_get (searchParams req) ''shop''
      in case isValidShopDomain (map_option JStr shop) of
           None \<Rightarrow> (Inl (Exception (toPrimitiveMessage P)), w)
         | Some False \<Rightarrow> (Inl (ValidationError INVALID_SHOP 400), w)
         | Some True \<Rightarrow>
             (case crypto_randomUUID P w of
                (state, w1) \<Rightarrow>
                  let redirectUri =
                        (if truthy (map_option JStr (APP_URL E)) then the (APP_URL E) else origin req)
                        @ ''/auth/callback'';
                      w2 = AUTH_STATES_put state (the shop) STATE_TTL_SECONDS w1
                  in (Inr (Redirect (buildShopifyAuthUrl (the shop) (SHOPIFY_API_KEY E)
                                       (OAUTH_SCOPES E) redirectUri state) 302), w2)))"

definition handleOAuthCallback :: "platform \<Rightarrow> env \<Rightarrow> request \<Rightarrow> world \<Rightarrow> response result" where
  "handleOAuthCallback P E req w =
     (let code = fromEntries (searchParams req) ''code'';
          shop = fromEntries (searchParams req) ''shop'';
          state = fromEntries (searchParams req) ''state'';
          hmac = fromEntries (searchParams req) ''hmac''
      in if \<not> truthy (map_option JStr code) \<or> \<not> truthy (map_option JStr shop)
            \<or> \<not> truthy (map_option JStr state) \<or> \<not> truthy (map_option JStr hmac)
         then (Inl (ValidationError MISSING_OAUTH_PARAMS 400), w)
         else (case AUTH_STATES_get (the state) w of
                 (savedShop, w1) \<Rightarrow>
                   if savedShop \<noteq> shop then (Inl (AuthenticationError INVALID_STATE 403), w1)
                   else (let w2 = AUTH_STATES_delete (the state) w1
                         in if \<not> verifyShopifyHmac P (searchParams req) (SHOPIFY_API_SECRET E)
                            then (Inl (AuthenticationError INVALID_HMAC 403), w2)
                            else (case exchangeCodeForToken P E (the shop) (the code) w2 of
                                    (Inl e, w3) \<Rightarrow> (Inl e, w3)
                                  | (Inr tokenData, w3) \<Rightarrow>
                                      (case storeShopData P (the shop) tokenData w3 of
                                         (Inl e, w4) \<Rightarrow> (Inl e, w4)
                                       | (Inr u, w4) \<Rightarrow>
                                           (let w5 = registerMandatoryWebhooks P E (the shop)
                                                       (getProperty tokenData ''access_token'') w4
                                            in (Inr (Redirect (Url (''https://'' @ the shop
                                                  @ ''/admin/apps/'' @ SHOPIFY_APP_HANDLE E) []) 302),
                                                w5)))))))"

text \<open>
  \<open>handleExtensionAuth\<close>: \<open>isValidShopDomain\<close> has converted the shop to a string when
  \<open>SHOPS.get\<close> takes it as a key, so that conversion does not throw.
\<close>

definition handleExtensionAuth :: "platform \<Rightarrow> env \<Rightarrow> request \<Rightarrow> world \<Rightarrow> response result" where
  "handleExtensionAuth P E req w =
     (let body = parseJsonBody P req
      in if body = JNull then (Inl (Exception (nullPropertyMessage P ''shop'')), w)
         else (let shop = getProperty body ''shop''
               in case isValidShopDomain shop of
                    None \<Rightarrow> (Inl (Exception (toPrimitiveMessage P)), w)
                  | Some False \<Rightarrow>
                      returnOrThrow (createJsonResponse P (JObj [(''error'', JStr INVALID_SHOP)]) 400) w
                  | Some True \<Rightarrow>
                      (case SHOPS_get (the (toString shop)) w of
                         (None, w1) \<Rightarrow>
                           returnOrThrow
                             (createJsonResponse P
                                (JObj [(''error'', JStr APP_NOT_INSTALLED),
                                       (''install_url'', JStr (''https://apps.shopify.com/''
                                                               @ SHOPIFY_APP_HANDLE E))]) 403) w1
                       | (Some shopData, w1) \<Rightarrow>
                           (case crypto_randomUUID P w1 of
                              (apiKey, w2) \<Rightarrow>
                                (let w3 = API_KEYS_put (''key:'' @ apiKey)
                                            \<lparr>keyShop = shop, keyAccessToken = accessToken shopData,
                                             createdAt = now w2\<rparr>
                                            (86400 * API_KEY_TTL_DAYS) w2
                                 in returnOrThrow
                                      (createJsonResponse P
                                         (JObj [(''success'', JOther True (Some ''true'')),
                                                (''api_key'', JStr apiKey),
                                                (''shop'', the shop)]) 200) w3)))))"

text \<open>
  \<open>proxyFailed\<close> is the \<open>catch\<close> block of \<open>handleAPIProxy\<close>, with the message of the error
  caught. The \<open>try\<close> block holds the call of \<open>proxyToShopify\<close> and the construction of the
  response from its result, so an upstream status that \<open>new Response\<close> refuses is
  answered here too.
\<close>

definition proxyFailed :: "platform \<Rightarrow> string \<Rightarrow> world \<Rightarrow> response result" where
  "proxyFailed P m w =
     returnOrThrow
       (createJsonResponse P (JObj [(''error'', JStr FAILED_PROXY), (''details'', JStr m)]) 500) w"

definition handleAPIProxy :: "platform \<Rightarrow> env \<Rightarrow> request \<Rightarrow> world \<Rightarrow> response result" where
  "handleAPIProxy P E req w =
     (let apiKey = extractApiKey req
      in if \<not> truthy (map_option JStr apiKey)
         then returnOrThrow (createJsonResponse P (JObj [(''error'', JStr MISSING_AUTH)]) 401) w
         else (case API_KEYS_get (''key:'' @ the apiKey) w of
                 (None, w1) \<Rightarrow>
                   returnOrThrow
                     (createJsonResponse P (JObj [(''error'', JStr INVALID_API_KEY)]) 401) w1
               | (Some keyData, w1) \<Rightarrow>
                   (let body = parseJsonBody P req
                    in if body = JNull
                       then (Inl (Exception (nullPropertyMessage P ''endpoint'')), w1)
                       else (let endpoint = getProperty body ''endpoint'';
                                 method = (case getProperty body ''method'' of
                                             None \<Rightarrow> Some (JStr ''GET'') | Some m \<Rightarrow> Some m);
                                 data = getProperty body ''data''
                             in if \<not> truthy endpoint
                                then returnOrThrow
                                       (createJsonResponse P
                                          (JObj [(''error'', JStr MISSING_ENDPOINT)]) 400) w1
                                else (case proxyToShopify P E (keyShop keyData) endpoint method data
                                             (keyAccessToken keyData) w1 of
                                        (Inr (responseData, code), w2) \<Rightarrow>
                                          (case createJsonResponse P responseData code of
                                             Inr resp \<Rightarrow> (Inr resp, w2)
                                           | Inl m \<Rightarrow> proxyFailed P m w2)
                                      | (Inl e, w2) \<Rightarrow> proxyFailed P (message e) w2)))))"

text \<open>
  \<open>handleShopRedact\<close>: \<open>SHOPS.delete\<close> takes the shop as a key and the log line puts it
  in a template literal; both convert it to a string, and the handler throws when that
  conversion does.
\<close>

definition handleShopRedact :: "platform \<Rightarrow> jsval \<Rightarrow> world \<Rightarrow> unit result" where
  "handleShopRedact P data w =
     (if data = JNull then (Inl (Exception (nullPropertyMessage P ''shop_domain'')), w)
      else (let shop = getProperty data ''shop_domain''
            in if truthy shop
               then (case toString shop of
                       None \<Rightarrow> (Inl (Exception (toPrimitiveMessage P)), w)
                     | Some key \<Rightarrow> (Inr (), SHOPS_delete key w))
               else (Inr (), w)))"

definition handleCustomerRedact :: "jsval \<Rightarrow> world \<Rightarrow> unit result" where
  "handleCustomerRedact data w = (Inr (), w)"

definition handleCustomerDataRequest :: "jsval \<Rightarrow> world \<Rightarrow> unit result" where
  "handleCustomerDataRequest data w = (Inr (), w)"

definition handleWebhook :: "platform \<Rightarrow> env \<Rightarrow> request \<Rightarrow> string \<Rightarrow> world \<Rightarrow> response result" where
  "handleWebhook P E req topic w =
     (if \<not> verifyWebhookHmac P (bodyText req) (hmacHeader req) (SHOPIFY_API_SECRET E)
      then (Inl (AuthenticationError INVALID_WEBHOOK 401), w)
      else (case JSON_parse P (bodyText req) of
              Inl m \<Rightarrow> (Inl (Exception m), w)
            | Inr data \<Rightarrow>
                (case (if topic = ''shop/redact'' then handleShopRedact P data w
                       else if topic = ''customers/redact'' then handleCustomerRedact data w
                       else if topic = ''customers/data_request'' then handleCustomerDataRequest data w
                       else (Inr (), w)) of
                   (Inl e, w1) \<Rightarrow> (Inl e, w1)
                 | (Inr u, w1) \<Rightarrow> (Inr (TextResponse [] 200), w1))))"

definition routeRequest :: "platform \<Rightarrow> env \<Rightarrow> request \<Rightarrow> world \<Rightarrow> response result" where
  "routeRequest P E req w =
     (if pathname req = ''/'' then handleRootPath P E req w
      else if pathname req = ''/auth'' then handleOAuth P E req w
      else if pathname req = ''/auth/callback'' then handleOAuthCallback P E req w
      else if pathname req = ''/webhooks/customers/redact'' then handleWebhook P E req ''customers/redact'' w
      else if pathname req = ''/webhooks/shop/redact'' then handleWebhook P E req ''shop/redact'' w
      else if pathname req = ''/webhooks/customers/data_request''
      then handleWebhook P E req ''customers/data_request'' w
      else if pathname req = ''/api/auth'' then handleExtensionAuth P E req w
      else if pathname req = ''/api/proxy'' then handleAPIProxy P E req w
      else (Inr (TextResponse ''Not Found'' 404), w))"

section \<open>The authorization signature as the specification words it\<close>

text \<open>
  The specification's \<open>verifyAuthorizationSignature\<close>: remove the signature parameters,
  sort the rest by key in byte-wise lexicographic order (the order \<open>\<le>\<close> of strings),
  join as \<open>key=value\<close> with \<open>&\<close>, compute the HMAC of the UTF-8 encoding, render it as
  lower-case hexadecimal, and accept when it equals the supplied signature.
\<close>

definition spec_canonicalQuery :: "params \<Rightarrow> string" where
  "spec_canonicalQuery ps =
     array_join ''&''
       (map (\<lambda>(k, v). k @ ''='' @ v)
          (sort_key fst (filter (\<lambda>(k, v). k \<noteq> ''hmac'' \<and> k \<noteq> ''signature'') ps)))"

definition spec_lowerHex :: "byte list \<Rightarrow> string" where
  "spec_lowerHex digest =
     concat (map (\<lambda>b. [hexDigits ! (unat b div 16), hexDigits ! (unat b mod 16)]) digest)"

definition spec_verifyAuthorizationSignature :: "platform \<Rightarrow> params \<Rightarrow> string \<Rightarrow> bool" where
  "spec_verifyAuthorizationSignature P ps secret =
     (case map_of ps ''hmac'' of
        None \<Rightarrow> False
      | Some supplied \<Rightarrow>
          (case hmacSha256 P (TextEncoder_encode secret) (TextEncoder_encode (spec_canonicalQuery ps)) of
             None \<Rightarrow> False
           | Some digest \<Rightarrow> spec_lowerHex digest = supplied))"

section \<open>The authorization signature, sorted as the code sorts\<close>

text \<open>
  Sorting with a comparison function is determined when the function is consistent on
  the keys it meets: any two keys are comparable, and the comparison is transitive.
  A list is then the stable sort of another when it is a permutation of it, is in
  order, and keeps the entries whose keys compare equal in their original order.
\<close>

definition keyBefore :: "platform \<Rightarrow> string \<Rightarrow> string \<Rightarrow> bool" where
  "keyBefore P a b = (localeCompare P a b \<le> 0)"

definition consistentOn :: "platform \<Rightarrow> string list \<Rightarrow> bool" where
  "consistentOn P ks =
     (list_all (\<lambda>a. list_all (\<lambda>b. keyBefore P a b \<or> keyBefore P b a) ks) ks
      \<and> list_all (\<lambda>a. list_all (\<lambda>b. list_all (\<lambda>c.
            keyBefore P a b \<longrightarrow> keyBefore P b c \<longrightarrow> keyBefore P a c) ks) ks) ks)"

definition stableSortOf :: "platform \<Rightarrow> params \<Rightarrow> params \<Rightarrow> bool" where
  "stableSortOf P qs ps =
     (mset qs = mset ps
      \<and> sorted_wrt (\<lambda>x y. keyBefore P (fst x) (fst y)) qs
      \<and> list_all (\<lambda>k. filter (\<lambda>x. keyBefore P (fst x) k \<and> keyBefore P k (fst x)) qs
                        = filter (\<lambda>x. keyBefore P (fst x) k \<and> keyBefore P k (fst x)) ps)
           (map fst ps))"

section \<open>An example runtime\<close>

text \<open>
  A concrete runtime, for evaluating the handlers on examples.
  \<^item> \<open>caseFirstCompare\<close> compares as \<open>localeCompare\<close> does on strings of ASCII letters and
    digits: by the letters regardless of case first, and between two strings that differ
    in case only, lower case first. So \<open>a\<close> sorts before \<open>B\<close>, which byte order puts first.
  \<^item> \<open>exampleMac\<close> stands in for HMAC-SHA256: a 32-byte digest that depends on the
    message.
  \<^item> \<open>exampleParse\<close> parses the bodies the examples send.
  \<^item> The upstream provider answers every request with a token.
\<close>

definition toLowerCase :: "char \<Rightarrow> char" where
  "toLowerCase c = (if CHR ''A'' \<le> c \<and> c \<le> CHR ''Z'' then char_of (of_char c + (32::nat)) else c)"

definition caseFirstCompare :: "string \<Rightarrow> string \<Rightarrow> int" where
  "caseFirstCompare a b =
     (let la = map toLowerCase a; lb = map toLowerCase b
      in if la < lb then - 1 else if lb < la then 1
         else if a = b then 0 else if b < a then - 1 else 1)"

definition exampleMac :: "byte list \<Rightarrow> byte list \<Rightarrow> byte list option" where
  "exampleMac key msg = Some (take 32 (msg @ replicate 32 0))"

definition exampleParse :: "string \<Rightarrow> string + jsval" where
  \<open>exampleParse s =
     (if s = ''{"shop_domain":"shop-a.myshopify.com"}''
      then Inr (JObj [(''shop_domain'', JStr ''shop-a.myshopify.com'')])
      else if s = ''{"shop":"shop-a.myshopify.com"}''
      then Inr (JObj [(''shop'', JStr ''shop-a.myshopify.com'')])
      else if s = ''{"shop":"evil.example"}''
      then Inr (JObj [(''shop'', JStr ''evil.example'')])
      else if s = ''{"endpoint":"/orders.json"}''
      then Inr (JObj [(''endpoint'', JStr ''/orders.json'')])
      else if s = ''{"endpoint":{"toString":0}}''
      then Inr (JObj [(''endpoint'', JObj [(''toString'', JOther False (Some ''0''))])])
      else Inl ''Unexpected end of JSON input'')\<close>

definition examplePlatform :: platform where
  "examplePlatform =
     \<lparr>hmacSha256 = exampleMac, localeCompare = caseFirstCompare, JSON_parse = exampleParse,
      randomUUID = (\<lambda>n. replicate (Suc n) (CHR ''u'')),
      upstream = (\<lambda>sent r. Inr \<lparr>ok = True, status = 200,
                                 json = Inr (JObj [(''access_token'', JStr ''shpat_1''),
                                                   (''scope'', JStr ''read_orders'')])\<rparr>),
      urlOrigin = (\<lambda>base. if base = ''https://gateway.example'' then Some base else None),
      toPrimitiveMessage = ''Cannot convert object to primitive value'',
      nullPropertyMessage = (\<lambda>name. ''Cannot read properties of null''),
      invalidUrlMessage = ''Invalid URL'',
      responseStatusMessage = (\<lambda>code. ''Invalid response status code'')\<rparr>"

definition exampleEnv :: env where
  "exampleEnv =
     \<lparr>SHOPIFY_API_KEY = ''app-key'', SHOPIFY_API_SECRET = ''app-secret'',
      OAUTH_SCOPES = ''read_orders'', APP_URL = Some ''https://gateway.example'',
      SHOPIFY_APP_HANDLE = ''gateway'', SHOPIFY_API_VERSION = ''2025-07''\<rparr>"

definition emptyWorld :: world where
  "emptyWorld =
     \<lparr>SHOPS = Map.empty, AUTH_STATES = Map.empty, API_KEYS = Map.empty, events = [],
      now = 0, uuids = 0\<rparr>"

definition exampleRequest :: request where
  "exampleRequest =
     \<lparr>pathname = ''/'', origin = ''https://gateway.example'', searchParams = [],
      authorization = None, hmacHeader = None, bodyText = []\<rparr>"

text \<open>
  Example requests and worlds. In \<open>installedWorld\<close> the shop \<open>shop-a\<close> has installed
  the app, holds the client key \<open>k1\<close> and an expired client key \<open>k0\<close>, and has started an
  authorization with the state token \<open>s1\<close>.
\<close>

definition shopA :: string where
  "shopA = ''shop-a.myshopify.com''"

definition installedWorld :: world where
  "installedWorld =
     \<lparr>SHOPS = [shopA \<mapsto> (\<lparr>accessToken = Some (JStr ''shpat_1''),
                            scope = Some (JStr ''read_orders''), installedAt = 0\<rparr>, None)],
      AUTH_STATES = [''s1'' \<mapsto> (shopA, Some 700)],
      API_KEYS = [''key:k1'' \<mapsto> (\<lparr>keyShop = Some (JStr shopA),
                                      keyAccessToken = Some (JStr ''shpat_1''),
                                      createdAt = 5\<rparr>, Some 7776005),
                  ''key:k0'' \<mapsto> (\<lparr>keyShop = Some (JStr shopA),
                                      keyAccessToken = Some (JStr ''shpat_0''),
                                      createdAt = 0\<rparr>, Some 90)],
      events = [], now = 100, uuids = 1\<rparr>"

definition redactWebhook :: request where
  \<open>redactWebhook =
     exampleRequest\<lparr>pathname := ''/webhooks/shop/redact'',
                     bodyText := ''{"shop_domain":"shop-a.myshopify.com"}'',
                     hmacHeader := Some ''eyJzaG9wX2RvbWFpbiI6InNob3AtYS5teXNob3BpZnk=''\<rparr>\<close>

definition forgedWebhook :: request where
  "forgedWebhook = redactWebhook\<lparr>hmacHeader := Some ''AAAA''\<rparr>"

definition proxyRequest :: "string option \<Rightarrow> request" where
  \<open>proxyRequest auth =
     exampleRequest\<lparr>pathname := ''/api/proxy'', authorization := auth,
                     bodyText := ''{"endpoint":"/orders.json"}''\<rparr>\<close>

definition objectEndpointRequest :: "string option \<Rightarrow> request" where
  \<open>objectEndpointRequest auth =
     exampleRequest\<lparr>pathname := ''/api/proxy'', authorization := auth,
                     bodyText := ''{"endpoint":{"toString":0}}''\<rparr>\<close>

definition issueRequest :: request where
  \<open>issueRequest =
     exampleRequest\<lparr>pathname := ''/api/auth'', bodyText := ''{"shop":"shop-a.myshopify.com"}''\<rparr>\<close>

definition evilIssueRequest :: request where
  \<open>evilIssueRequest =
     exampleRequest\<lparr>pathname := ''/api/auth'', bodyText := ''{"shop":"evil.example"}''\<rparr>\<close>

definition callbackRequest :: "string \<Rightarrow> request" where
  "callbackRequest shop =
     exampleRequest\<lparr>pathname := ''/auth/callback'',
                     searchParams := [(''code'', ''c1''), (''shop'', shop), (''state'', ''s1''),
                                      (''hmac'', ''636f64653d63312673686f703d73686f702d612e6d7973686f706966792e636f'')]\<rparr>"

text \<open>Query parameters with a lower-case and an upper-case key, signed over \<open>a=1&B=2\<close>.\<close>

definition mixedCaseParams :: params where
  "mixedCaseParams =
     [(''a'', ''1''), (''B'', ''2''),
      (''hmac'', ''613d3126423d3200000000000000000000000000000000000000000000000000'')]"

definition shopRequest :: "string \<Rightarrow> request" where
  "shopRequest shop = exampleRequest\<lparr>searchParams := [(''shop'', shop)]\<rparr>"

text \<open>The invariant of \<open>AUTH_STATES\<close>: every stored value is a valid shop domain.\<close>

definition statesValid :: "world \<Rightarrow> bool" where
  "statesValid w = (\<forall>k v e. AUTH_STATES w k = Some (v, e) \<longrightarrow> shopDomainRegex v)"

section \<open>Properties of timingSafeEqual\<close>

lemma unat_of_char32: "unat (of_char x :: 32 word) = of_char x"
proof -
  have e: "word_of_nat (of_char x) = (of_char x :: 32 word)" by (simp only: of_nat_of_char)
  have "(of_char x :: nat) < 4294967296"
    using nat_of_char_less_256 [of x] by linarith
  then have "(of_char x :: nat) < 2 ^ LENGTH(32)"
    by simp
  with e show ?thesis by (rule of_nat_inverse)
qed

lemma of_char_word32_inj: "(of_char c :: 32 word) = of_char d \<longleftrightarrow> c = d"
proof
  assume h: "(of_char c :: 32 word) = of_char d"
  from h have "unat (of_char c :: 32 word) = unat (of_char d :: 32 word)" by simp
  then have "(of_char c :: nat) = of_char d" by (simp only: unat_of_char32)
  then show "c = d" by simp
qed simp

lemma word_xor_eq_0: "(x XOR y = 0) = (x = y)" for x y :: "32 word"
  by (metis bit.xor_left_self xor.right_neutral)

lemma timingSafeEqual_loop_zero:
  "timingSafeEqual_loop a b i r = 0 \<longleftrightarrow>
     r = 0 \<and> (\<forall>j. i \<le> j \<and> j < length a \<longrightarrow> charCodeAt a j = charCodeAt b j)"
proof (induction a b i r rule: timingSafeEqual_loop.induct)
  case (1 a b i r)
  show ?case
  proof (cases "i < length a")
    case True
    have "timingSafeEqual_loop a b i r =
            timingSafeEqual_loop a b (i + 1) (r OR (charCodeAt a i XOR charCodeAt b i))"
      using True by (subst timingSafeEqual_loop.simps) simp
    moreover have "(\<forall>j. i \<le> j \<and> j < length a \<longrightarrow> charCodeAt a j = charCodeAt b j)
       \<longleftrightarrow> charCodeAt a i = charCodeAt b i
           \<and> (\<forall>j. i + 1 \<le> j \<and> j < length a \<longrightarrow> charCodeAt a j = charCodeAt b j)"
      using True
      by (metis Suc_eq_plus1 Suc_leI le_eq_less_or_eq le_refl less_eq_Suc_le not_less_eq_eq)
    ultimately show ?thesis using 1[OF True]
      by (simp only: or_eq_0_iff word_xor_eq_0) blast
  next
    case False
    then show ?thesis by (subst timingSafeEqual_loop.simps) auto
  qed
qed

lemma timingSafeEqual_loop_fold:
  "timingSafeEqual_loop a b i r =
     fold (\<lambda>j acc. acc OR (charCodeAt a j XOR charCodeAt b j)) [i..<length a] r"
proof (induction a b i r rule: timingSafeEqual_loop.induct)
  case (1 a b i r)
  show ?case
  proof (cases "i < length a")
    case True
    then have "[i..<length a] = i # [i + 1..<length a]" by (simp add: upt_conv_Cons)
    then show ?thesis using 1[OF True] True
      by (subst timingSafeEqual_loop.simps) simp
  next
    case False
    then show ?thesis by (subst timingSafeEqual_loop.simps) simp
  qed
qed

lemma timingSafeEqual_eq: "timingSafeEqual a b \<longleftrightarrow> a = b"
proof (cases "length a = length b")
  case True
  then have "timingSafeEqual a b \<longleftrightarrow> (\<forall>j<length a. a ! j = b ! j)"
    by (simp add: timingSafeEqual_def timingSafeEqual_loop_zero charCodeAt_def of_char_word32_inj)
  with True show ?thesis by (auto simp: list_eq_iff_nth_eq)
next
  case False
  then show ?thesis by (auto simp: timingSafeEqual_def)
qed

text \<open>
  C9. \<open>timingSafeEqual a b\<close> is true exactly when the two strings are identical. It is
  false when the lengths differ; when they agree, it is the test that the accumulator,
  which takes the XOR of the code units at every index from 0 to the length, is zero:
  no index is skipped after a mismatch.
\<close>

theorem timingSafeEqual_correct:
  "(timingSafeEqual a b \<longleftrightarrow> a = b)
   \<and> (timingSafeEqual a b \<longleftrightarrow>
        length a = length b
        \<and> fold (\<lambda>j acc. acc OR (charCodeAt a j XOR charCodeAt b j)) [0..<length a] 0 = 0)"
proof -
  have "timingSafeEqual a b \<longleftrightarrow>
        length a = length b
        \<and> fold (\<lambda>j acc. acc OR (charCodeAt a j XOR charCodeAt b j)) [0..<length a] 0 = 0"
    by (simp add: timingSafeEqual_def timingSafeEqual_loop_fold)
  with timingSafeEqual_eq [of a b] show ?thesis by blast
qed

theorem timingSafeEqual_correct_witness:
  "\<not> timingSafeEqual ''3f2a'' ''3f2b'' \<and> timingSafeEqual ''3f2a'' ''3f2a''
   \<and> \<not> timingSafeEqual ''3f2a'' ''3f2''"
  using timingSafeEqual_correct [of "''3f2a''" "''3f2b''"]
    timingSafeEqual_correct [of "''3f2a''" "''3f2a''"]
    timingSafeEqual_correct [of "''3f2a''" "''3f2''"]
  by simp

section \<open>Evaluating the examples\<close>

lemmas example_defs = examplePlatform_def exampleEnv_def exampleRequest_def installedWorld_def
  redactWebhook_def forgedWebhook_def proxyRequest_def issueRequest_def callbackRequest_def shopA_def
  emptyWorld_def exampleMac_def exampleParse_def shopRequest_def evilIssueRequest_def
  objectEndpointRequest_def

lemma kv_get_expired: "m k = Some (v, Some e) \<Longrightarrow> e \<le> t \<Longrightarrow> kv_get t m k = None"
  by (simp add: kv_get_def)

lemma kv_get_absent: "m k = None \<Longrightarrow> kv_get t m k = None"
  by (simp add: kv_get_def)

text \<open>
  The statuses that the handlers pass to \<open>createJsonResponse\<close> themselves (200, 400, 401,
  403, 500) are accepted by \<open>new Response\<close>.
\<close>

lemma returnOrThrow_createJsonResponse [simp]:
  "200 \<le> code \<Longrightarrow> code \<le> 599 \<Longrightarrow> code \<noteq> 204 \<Longrightarrow> code \<noteq> 205 \<Longrightarrow> code \<noteq> 304
     \<Longrightarrow> returnOrThrow (createJsonResponse P data code) w = (Inr (JsonResponse data code), w)"
  by (simp add: returnOrThrow_def createJsonResponse_def)

lemma proxyFailed_eq [simp]:
  "proxyFailed P m w
     = (Inr (JsonResponse (JObj [(''error'', JStr FAILED_PROXY), (''details'', JStr m)]) 500), w)"
  by (simp add: proxyFailed_def)

section \<open>Webhooks fail closed\<close>

text \<open>
  C4. When the signature header of a webhook request does not verify against the raw
  body under the shared secret, \<open>handleWebhook\<close> throws
  \<open>AuthenticationError\<close> (invalid webhook signature, 401) and the world is returned as it
  was: nothing is dispatched, no namespace is read, written or deleted from, and no
  request is sent.
\<close>

theorem handleWebhook_fails_closed:
  assumes "\<not> verifyWebhookHmac P (bodyText req) (hmacHeader req) (SHOPIFY_API_SECRET E)"
  shows "handleWebhook P E req topic w = (Inl (AuthenticationError INVALID_WEBHOOK 401), w)"
  using assms by (simp add: handleWebhook_def)

theorem handleWebhook_fails_closed_witness:
  "\<not> verifyWebhookHmac examplePlatform (bodyText forgedWebhook) (hmacHeader forgedWebhook)
        (SHOPIFY_API_SECRET exampleEnv)
   \<and> handleWebhook examplePlatform exampleEnv forgedWebhook ''shop/redact'' installedWorld
       = (Inl (AuthenticationError INVALID_WEBHOOK 401), installedWorld)"
proof -
  have h: "\<not> verifyWebhookHmac examplePlatform (bodyText forgedWebhook) (hmacHeader forgedWebhook)
        (SHOPIFY_API_SECRET exampleEnv)"
    by (simp add: verifyWebhookHmac_def timingSafeEqual_eq example_defs
        TextEncoder_encode_def encodeCodeUnit_def base64Alphabet_def)
  from handleWebhook_fails_closed [OF h] h show ?thesis by blast
qed

section \<open>The proxy rejects unknown client keys\<close>

text \<open>
  C5. When the request carries no client key (no \<open>Authorization\<close> header, one that does
  not start with \<open>Bearer\<close>, or an empty key), or the key has no entry in \<open>API_KEYS\<close>, or
  its entry has expired, \<open>handleAPIProxy\<close> answers 401 with an error payload
  (missing authorization, or invalid API key), and what it adds to the trace contains no
  outbound request: zero upstream calls. Nothing else of the world changes.
\<close>

theorem handleAPIProxy_rejects_unknown_key:
  assumes "extractApiKey req = None \<or> extractApiKey req = Some []
           \<or> (\<exists>k. extractApiKey req = Some k
                 \<and> (API_KEYS w (''key:'' @ k) = None
                     \<or> (\<exists>v e. API_KEYS w (''key:'' @ k) = Some (v, Some e) \<and> e \<le> now w)))"
  shows "\<exists>msg es. handleAPIProxy P E req w
             = (Inr (JsonResponse (JObj [(''error'', JStr msg)]) 401), w\<lparr>events := events w @ es\<rparr>)
           \<and> (msg = MISSING_AUTH \<or> msg = INVALID_API_KEY) \<and> fetches es = []"
proof -
  consider (missing) "\<not> truthy (map_option JStr (extractApiKey req))"
    | (unknown) k where "extractApiKey req = Some k" "k \<noteq> []"
        "kv_get (now w) (API_KEYS w) (''key:'' @ k) = None"
  proof (cases "extractApiKey req")
    case None
    then show ?thesis using missing by simp
  next
    case (Some k)
    show ?thesis
    proof (cases "k = []")
      case True
      with Some show ?thesis using missing by simp
    next
      case False
      from assms Some have "kv_get (now w) (API_KEYS w) (''key:'' @ k) = None"
        using False by (auto simp: kv_get_expired kv_get_absent)
      with Some False show ?thesis using unknown by blast
    qed
  qed
  then show ?thesis
  proof cases
    case missing
    then have "handleAPIProxy P E req w
      = (Inr (JsonResponse (JObj [(''error'', JStr MISSING_AUTH)]) 401), w\<lparr>events := events w @ []\<rparr>)"
      by (simp add: handleAPIProxy_def)
    then show ?thesis by (metis fetches.simps(1))
  next
    case unknown
    then have "handleAPIProxy P E req w
      = (Inr (JsonResponse (JObj [(''error'', JStr INVALID_API_KEY)]) 401),
         w\<lparr>events := events w @ [KvGet NsApiKeys (''key:'' @ k)]\<rparr>)"
      by (simp add: handleAPIProxy_def API_KEYS_get_def)
    moreover have "fetches [KvGet NsApiKeys (''key:'' @ k)] = []" by simp
    ultimately show ?thesis by metis
  qed
qed

theorem handleAPIProxy_rejects_unknown_key_witness:
  "(extractApiKey (proxyRequest (Some ''Bearer k0'')) = None
    \<or> extractApiKey (proxyRequest (Some ''Bearer k0'')) = Some []
    \<or> (\<exists>k. extractApiKey (proxyRequest (Some ''Bearer k0'')) = Some k
          \<and> (API_KEYS installedWorld (''key:'' @ k) = None
              \<or> (\<exists>v e. API_KEYS installedWorld (''key:'' @ k) = Some (v, Some e)
                       \<and> e \<le> now installedWorld))))
   \<and> (\<exists>msg es. handleAPIProxy examplePlatform exampleEnv (proxyRequest (Some ''Bearer k0'')) installedWorld
             = (Inr (JsonResponse (JObj [(''error'', JStr msg)]) 401),
                installedWorld\<lparr>events := events installedWorld @ es\<rparr>)
           \<and> (msg = MISSING_AUTH \<or> msg = INVALID_API_KEY) \<and> fetches es = [])"
proof -
  have h: "extractApiKey (proxyRequest (Some ''Bearer k0'')) = None
    \<or> extractApiKey (proxyRequest (Some ''Bearer k0'')) = Some []
    \<or> (\<exists>k. extractApiKey (proxyRequest (Some ''Bearer k0'')) = Some k
          \<and> (API_KEYS installedWorld (''key:'' @ k) = None
              \<or> (\<exists>v e. API_KEYS installedWorld (''key:'' @ k) = Some (v, Some e)
                       \<and> e \<le> now installedWorld)))"
    by (simp add: extractApiKey_def example_defs)
  from handleAPIProxy_rejects_unknown_key [OF h] h show ?thesis by blast
qed

section \<open>The state check of the OAuth callback\<close>

lemma callback_state_mismatch:
  assumes "fromEntries (searchParams req) ''code'' = Some code" and "code \<noteq> []"
    and "fromEntries (searchParams req) ''shop'' = Some shop" and "shop \<noteq> []"
    and "fromEntries (searchParams req) ''state'' = Some state" and "state \<noteq> []"
    and "fromEntries (searchParams req) ''hmac'' = Some hmac" and "hmac \<noteq> []"
    and "kv_get (now w) (AUTH_STATES w) state \<noteq> Some shop"
  shows "handleOAuthCallback P E req w
           = (Inl (AuthenticationError INVALID_STATE 403),
              w\<lparr>events := events w @ [KvGet NsAuthStates state]\<rparr>)"
  using assms by (simp add: handleOAuthCallback_def AUTH_STATES_get_def)

text \<open>
  C8. In the OAuth callback (with its four parameters present), when \<open>AUTH_STATES\<close>
  holds no live entry for the supplied state token, or holds a shop other than the
  supplied one, the callback throws \<open>AuthenticationError\<close> (invalid state, 403). The only
  thing it has done then is to read the state token: the trace gains that one read and
  no outbound request, so the token exchange never occurs. The absent and the mismatched
  case take the same branch and give the same outcome.
\<close>

theorem handleOAuthCallback_invalid_state:
  assumes "fromEntries (searchParams req) ''code'' = Some code" and "code \<noteq> []"
    and "fromEntries (searchParams req) ''shop'' = Some shop" and "shop \<noteq> []"
    and "fromEntries (searchParams req) ''state'' = Some state" and "state \<noteq> []"
    and "fromEntries (searchParams req) ''hmac'' = Some hmac" and "hmac \<noteq> []"
    and "kv_get (now w) (AUTH_STATES w) state \<noteq> Some shop"
  shows "handleOAuthCallback P E req w
           = (Inl (AuthenticationError INVALID_STATE 403),
              w\<lparr>events := events w @ [KvGet NsAuthStates state]\<rparr>)"
  using assms by (rule callback_state_mismatch)

theorem handleOAuthCallback_invalid_state_witness:
  "handleOAuthCallback examplePlatform exampleEnv (callbackRequest ''shop-b.myshopify.com'') installedWorld
     = (Inl (AuthenticationError INVALID_STATE 403),
        installedWorld\<lparr>events := events installedWorld @ [KvGet NsAuthStates ''s1'']\<rparr>)
   \<and> handleOAuthCallback examplePlatform exampleEnv (callbackRequest shopA) emptyWorld
     = (Inl (AuthenticationError INVALID_STATE 403),
        emptyWorld\<lparr>events := events emptyWorld @ [KvGet NsAuthStates ''s1'']\<rparr>)"
proof -
  have a: "handleOAuthCallback examplePlatform exampleEnv (callbackRequest ''shop-b.myshopify.com'') installedWorld
     = (Inl (AuthenticationError INVALID_STATE 403),
        installedWorld\<lparr>events := events installedWorld @ [KvGet NsAuthStates ''s1'']\<rparr>)"
    by (rule handleOAuthCallback_invalid_state [where code = "''c1''" and shop = "''shop-b.myshopify.com''"
          and hmac = "''636f64653d63312673686f703d73686f702d612e6d7973686f706966792e636f''"])
       (simp_all add: fromEntries_def kv_get_def example_defs)
  have b: "handleOAuthCallback examplePlatform exampleEnv (callbackRequest shopA) emptyWorld
     = (Inl (AuthenticationError INVALID_STATE 403),
        emptyWorld\<lparr>events := events emptyWorld @ [KvGet NsAuthStates ''s1'']\<rparr>)"
    by (rule handleOAuthCallback_invalid_state [where code = "''c1''" and shop = shopA
          and hmac = "''636f64653d63312673686f703d73686f702d612e6d7973686f706966792e636f''"])
       (simp_all add: fromEntries_def kv_get_def example_defs)
  from a b show ?thesis by blast
qed

section \<open>The authorization signature\<close>

lemma toString16_digit: "n < 16 \<Longrightarrow> toString16 n = [hexDigits ! n]"
  by (subst toString16.simps) simp

lemma hexByte_two_digits:
  "padStart 2 (CHR ''0'') (toString16 (unat (b :: byte)))
     = [hexDigits ! (unat b div 16), hexDigits ! (unat b mod 16)]"
proof -
  have lt: "unat b < 256" using unsigned_less [of b] by simp
  show ?thesis
  proof (cases "unat b < 16")
    case True
    then show ?thesis by (simp add: toString16_digit padStart_def hexDigits_def)
  next
    case False
    from lt have "unat b div 16 < 16" by simp
    then have "toString16 (unat b) = [hexDigits ! (unat b div 16), hexDigits ! (unat b mod 16)]"
      using False by (subst toString16.simps) (simp add: toString16_digit)
    then show ?thesis by (simp add: padStart_def)
  qed
qed

lemma hexEncode_spec: "hexEncode d = spec_lowerHex d"
  by (simp add: hexEncode_def spec_lowerHex_def hexByte_two_digits)

lemma length_hexEncode: "length (hexEncode d) = 2 * length d"
  by (induction d) (simp_all add: hexEncode_def hexByte_two_digits)

lemma set_insertSorted: "set (insertSorted cmp x ys) = insert x (set ys)"
  by (induction ys) auto

lemma insertSorted_insort:
  assumes "\<forall>y \<in> set ys. (cmp x y \<le> 0) = (f x \<le> f y)"
  shows "insertSorted cmp x ys = insort_key f x ys"
  using assms by (induction ys) auto

lemma set_foldr_insertSorted: "set (foldr (insertSorted cmp) xs []) = set xs"
  by (induction xs) (simp_all add: set_insertSorted)

lemma array_sort_sort_key:
  assumes "\<forall>x \<in> set xs. \<forall>y \<in> set xs. (cmp x y \<le> 0) = (f x \<le> f y)"
  shows "array_sort cmp xs = sort_key f xs"
  unfolding array_sort_def sort_key_def using assms
proof (induction xs)
  case Nil
  then show ?case by simp
next
  case (Cons x xs)
  then have ih: "foldr (insertSorted cmp) xs [] = foldr (insort_key f) xs []" by simp
  have "\<forall>y \<in> set (foldr (insort_key f) xs []). (cmp x y \<le> 0) = (f x \<le> f y)"
    using Cons.prems by (simp flip: ih add: set_foldr_insertSorted)
  then show ?case by (simp add: ih insertSorted_insort)
qed

lemma searchParams_delete_both:
  "searchParams_delete (searchParams_delete ps ''hmac'') ''signature''
     = filter (\<lambda>(k, v). k \<noteq> ''hmac'' \<and> k \<noteq> ''signature'') ps"
  by (induction ps) (auto simp: searchParams_delete_def)

lemma sortedParams_spec:
  assumes "\<forall>a \<in> fst ` set (searchParams_delete (searchParams_delete ps ''hmac'') ''signature'').
           \<forall>b \<in> fst ` set (searchParams_delete (searchParams_delete ps ''hmac'') ''signature'').
             (localeCompare P a b \<le> 0) = (a \<le> b)"
  shows "sortedParams P ps = spec_canonicalQuery ps"
proof -
  let ?rest = "searchParams_delete (searchParams_delete ps ''hmac'') ''signature''"
  have "\<forall>x \<in> set ?rest. \<forall>y \<in> set ?rest.
          ((case x of (a, _) \<Rightarrow> \<lambda>(b, _). localeCompare P a b) y \<le> 0) = (fst x \<le> fst y)"
    using assms by (auto simp: split_def)
  then have "array_sort (\<lambda>(a, _) (b, _). localeCompare P a b) ?rest = sort_key fst ?rest"
    by (rule array_sort_sort_key)
  then show ?thesis
    by (simp add: sortedParams_def spec_canonicalQuery_def Let_def searchParams_delete_both)
qed

lemma mset_insertSorted: "mset (insertSorted cmp x ys) = add_mset x (mset ys)"
  by (induction ys) auto

lemma mset_array_sort: "mset (array_sort cmp xs) = mset xs"
  unfolding array_sort_def by (induction xs) (simp_all add: mset_insertSorted)

lemma set_array_sort: "set (array_sort cmp xs) = set xs"
  using mset_array_sort [of cmp xs] by (metis set_mset_mset)

lemma sorted_insertSorted:
  assumes total: "\<And>y. y \<in> set ys \<Longrightarrow> cmp x y \<le> 0 \<or> cmp y x \<le> 0"
    and trans: "\<And>y z. y \<in> set ys \<Longrightarrow> z \<in> set ys \<Longrightarrow> cmp x y \<le> 0 \<Longrightarrow> cmp y z \<le> 0
                  \<Longrightarrow> cmp x z \<le> 0"
    and sorted: "sorted_wrt (\<lambda>a b. cmp a b \<le> 0) ys"
  shows "sorted_wrt (\<lambda>a b. cmp a b \<le> 0) (insertSorted cmp x ys)"
  using assms
proof (induction ys)
  case Nil
  then show ?case by simp
next
  case (Cons y ys)
  show ?case
  proof (cases "cmp x y \<le> 0")
    case True
    have "cmp x z \<le> 0" if "z \<in> set ys" for z
    proof -
      from Cons.prems(3) that have "cmp y z \<le> 0" by simp
      with Cons.prems(2) [of y z] True that show ?thesis by simp
    qed
    with True Cons.prems(3) show ?thesis by simp
  next
    case False
    with Cons.prems(1) [of y] have yx: "cmp y x \<le> 0" by simp
    have "sorted_wrt (\<lambda>a b. cmp a b \<le> 0) (insertSorted cmp x ys)"
    proof (rule Cons.IH)
      fix z assume "z \<in> set ys"
      then show "cmp x z \<le> 0 \<or> cmp z x \<le> 0" using Cons.prems(1) [of z] by simp
    next
      fix z z' assume "z \<in> set ys" "z' \<in> set ys" "cmp x z \<le> 0" "cmp z z' \<le> 0"
      then show "cmp x z' \<le> 0" using Cons.prems(2) [of z z'] by simp
    next
      show "sorted_wrt (\<lambda>a b. cmp a b \<le> 0) ys" using Cons.prems(3) by simp
    qed
    moreover have "\<forall>z \<in> set (insertSorted cmp x ys). cmp y z \<le> 0"
      using yx Cons.prems(3) by (simp add: set_insertSorted)
    ultimately show ?thesis using False by simp
  qed
qed

lemma sorted_array_sort:
  assumes total: "\<And>x y. x \<in> set xs \<Longrightarrow> y \<in> set xs \<Longrightarrow> cmp x y \<le> 0 \<or> cmp y x \<le> 0"
    and trans: "\<And>x y z. x \<in> set xs \<Longrightarrow> y \<in> set xs \<Longrightarrow> z \<in> set xs \<Longrightarrow> cmp x y \<le> 0
                  \<Longrightarrow> cmp y z \<le> 0 \<Longrightarrow> cmp x z \<le> 0"
  shows "sorted_wrt (\<lambda>a b. cmp a b \<le> 0) (array_sort cmp xs)"
  using assms
proof (induction xs)
  case Nil
  show ?case by (simp add: array_sort_def)
next
  case (Cons x xs)
  have ih: "sorted_wrt (\<lambda>a b. cmp a b \<le> 0) (array_sort cmp xs)"
  proof (rule Cons.IH)
    fix a b assume "a \<in> set xs" "b \<in> set xs"
    then show "cmp a b \<le> 0 \<or> cmp b a \<le> 0" using Cons.prems(1) [of a b] by simp
  next
    fix a b c assume "a \<in> set xs" "b \<in> set xs" "c \<in> set xs" "cmp a b \<le> 0" "cmp b c \<le> 0"
    then show "cmp a c \<le> 0" using Cons.prems(2) [of a b c] by simp
  qed
  have "sorted_wrt (\<lambda>a b. cmp a b \<le> 0) (insertSorted cmp x (array_sort cmp xs))"
  proof (rule sorted_insertSorted)
    fix y assume "y \<in> set (array_sort cmp xs)"
    then show "cmp x y \<le> 0 \<or> cmp y x \<le> 0"
      using Cons.prems(1) [of x y] by (simp add: set_array_sort)
  next
    fix y z assume "y \<in> set (array_sort cmp xs)" "z \<in> set (array_sort cmp xs)"
      "cmp x y \<le> 0" "cmp y z \<le> 0"
    then show "cmp x z \<le> 0"
      using Cons.prems(2) [of x y z] by (simp add: set_array_sort)
  qed (rule ih)
  then show ?case by (simp add: array_sort_def)
qed

text \<open>Entries that compare equal to a key keep their order: the sort is stable.\<close>

lemma filter_insertSorted:
  assumes trans: "\<And>y. y \<in> set ys \<Longrightarrow> eqv x \<Longrightarrow> eqv y \<Longrightarrow> cmp x y \<le> 0"
  shows "filter eqv (insertSorted cmp x ys) = filter eqv (x # ys)"
  using assms by (induction ys) auto

lemma filter_array_sort:
  assumes "\<And>x y. x \<in> set xs \<Longrightarrow> y \<in> set xs \<Longrightarrow> eqv x \<Longrightarrow> eqv y \<Longrightarrow> cmp x y \<le> 0"
  shows "filter eqv (array_sort cmp xs) = filter eqv xs"
  using assms
proof (induction xs)
  case Nil
  show ?case by (simp add: array_sort_def)
next
  case (Cons x xs)
  have ih: "filter eqv (array_sort cmp xs) = filter eqv xs"
  proof (rule Cons.IH)
    fix a b assume "a \<in> set xs" "b \<in> set xs" "eqv a" "eqv b"
    then show "cmp a b \<le> 0" using Cons.prems [of a b] by simp
  qed
  have "filter eqv (insertSorted cmp x (array_sort cmp xs)) = filter eqv (x # array_sort cmp xs)"
  proof (rule filter_insertSorted)
    fix y assume "y \<in> set (array_sort cmp xs)" "eqv x" "eqv y"
    then show "cmp x y \<le> 0" using Cons.prems [of x y] by (simp add: set_array_sort)
  qed
  with ih show ?case by (simp add: array_sort_def)
qed

lemma consistentOn_total:
  "consistentOn P ks \<Longrightarrow> a \<in> set ks \<Longrightarrow> b \<in> set ks \<Longrightarrow> keyBefore P a b \<or> keyBefore P b a"
  unfolding consistentOn_def list_all_iff by blast

lemma consistentOn_trans:
  "consistentOn P ks \<Longrightarrow> a \<in> set ks \<Longrightarrow> b \<in> set ks \<Longrightarrow> c \<in> set ks
     \<Longrightarrow> keyBefore P a b \<Longrightarrow> keyBefore P b c \<Longrightarrow> keyBefore P a c"
  unfolding consistentOn_def list_all_iff by blast

lemma array_sort_stableSortOf:
  assumes "consistentOn P (map fst ps)"
  shows "stableSortOf P (array_sort (\<lambda>(a, _) (b, _). localeCompare P a b) ps) ps"
proof -
  let ?cmp = "\<lambda>(a, _) (b, _). localeCompare P a b"
  have le: "(?cmp x y \<le> 0) = keyBefore P (fst x) (fst y)" for x y :: "string \<times> string"
    by (simp add: keyBefore_def split_def)
  have key: "fst x \<in> set (map fst ps)" if "x \<in> set ps" for x
    using that by simp
  have "sorted_wrt (\<lambda>a b. ?cmp a b \<le> 0) (array_sort ?cmp ps)"
  proof (rule sorted_array_sort)
    fix x y assume "x \<in> set ps" "y \<in> set ps"
    then show "?cmp x y \<le> 0 \<or> ?cmp y x \<le> 0"
      unfolding le using consistentOn_total [OF assms] key by blast
  next
    fix x y z assume "x \<in> set ps" "y \<in> set ps" "z \<in> set ps" "?cmp x y \<le> 0" "?cmp y z \<le> 0"
    then show "?cmp x z \<le> 0"
      unfolding le using consistentOn_trans [OF assms] key by blast
  qed
  then have sorted: "sorted_wrt (\<lambda>x y. keyBefore P (fst x) (fst y)) (array_sort ?cmp ps)"
    unfolding le .
  have stable: "filter (\<lambda>x. keyBefore P (fst x) k \<and> keyBefore P k (fst x)) (array_sort ?cmp ps)
                  = filter (\<lambda>x. keyBefore P (fst x) k \<and> keyBefore P k (fst x)) ps"
    if k: "k \<in> set (map fst ps)" for k
  proof (rule filter_array_sort)
    fix x y assume "x \<in> set ps" "y \<in> set ps"
      "keyBefore P (fst x) k \<and> keyBefore P k (fst x)" "keyBefore P (fst y) k \<and> keyBefore P k (fst y)"
    then show "?cmp x y \<le> 0"
      unfolding le using consistentOn_trans [OF assms _ k] key by blast
  qed
  from sorted stable mset_array_sort [of ?cmp ps] show ?thesis
    by (simp add: stableSortOf_def list_all_iff)
qed

lemma verifyShopifyHmac_accepts:
  "verifyShopifyHmac P ps secret \<longleftrightarrow>
     (\<exists>supplied digest. map_of ps ''hmac'' = Some supplied \<and> supplied \<noteq> []
        \<and> hmacSha256 P (TextEncoder_encode secret) (TextEncoder_encode (sortedParams P ps)) = Some digest
        \<and> spec_lowerHex digest = supplied)"
  by (auto simp: verifyShopifyHmac_def searchParams_get_def timingSafeEqual_eq hexEncode_spec
      split: option.splits)

text \<open>
  C2 (amended). For every parameter set and secret, the verifier accepts exactly when the
  parameter \<open>hmac\<close> is present and not empty and equals the lower-case hexadecimal
  rendering of the HMAC-SHA256, under the UTF-8 encoding of the secret, of the UTF-8
  encoding of \<open>sortedParams\<close>. That string joins with \<open>&\<close> the \<open>key=value\<close> renderings of
  a permutation of the parameters other than \<open>hmac\<close> and \<open>signature\<close>; when
  \<open>localeCompare\<close> is consistent on their keys the permutation is their stable sort by
  key under \<open>localeCompare\<close>; and when \<open>localeCompare\<close> agrees with the byte-wise order
  on their keys, the string is the byte-wise sorted one of the specification.
\<close>

theorem verifyShopifyHmac_locale_sorted:
  "(verifyShopifyHmac P ps secret \<longleftrightarrow>
      (\<exists>supplied digest. map_of ps ''hmac'' = Some supplied \<and> supplied \<noteq> []
         \<and> hmacSha256 P (TextEncoder_encode secret) (TextEncoder_encode (sortedParams P ps)) = Some digest
         \<and> spec_lowerHex digest = supplied))
   \<and> (\<exists>qs. sortedParams P ps = array_join ''&'' (map (\<lambda>(k, v). k @ ''='' @ v) qs)
         \<and> mset qs = mset (filter (\<lambda>(k, v). k \<noteq> ''hmac'' \<and> k \<noteq> ''signature'') ps)
         \<and> (consistentOn P (map fst (filter (\<lambda>(k, v). k \<noteq> ''hmac'' \<and> k \<noteq> ''signature'') ps))
              \<longrightarrow> stableSortOf P qs (filter (\<lambda>(k, v). k \<noteq> ''hmac'' \<and> k \<noteq> ''signature'') ps)))
   \<and> ((\<forall>a \<in> fst ` set (filter (\<lambda>(k, v). k \<noteq> ''hmac'' \<and> k \<noteq> ''signature'') ps).
        \<forall>b \<in> fst ` set (filter (\<lambda>(k, v). k \<noteq> ''hmac'' \<and> k \<noteq> ''signature'') ps).
          (localeCompare P a b \<le> 0) = (a \<le> b))
       \<longrightarrow> sortedParams P ps = spec_canonicalQuery ps)"
proof -
  let ?rest = "filter (\<lambda>(k, v). k \<noteq> ''hmac'' \<and> k \<noteq> ''signature'') ps"
  let ?qs = "array_sort (\<lambda>(a, _) (b, _). localeCompare P a b) ?rest"
  have 1: "sortedParams P ps = array_join ''&'' (map (\<lambda>(k, v). k @ ''='' @ v) ?qs)"
    by (simp add: sortedParams_def Let_def searchParams_delete_both)
  have 2: "mset ?qs = mset ?rest" by (rule mset_array_sort)
  have 3: "consistentOn P (map fst ?rest) \<longrightarrow> stableSortOf P ?qs ?rest"
    using array_sort_stableSortOf by blast
  have 4: "(\<forall>a \<in> fst ` set ?rest. \<forall>b \<in> fst ` set ?rest. (localeCompare P a b \<le> 0) = (a \<le> b))
       \<longrightarrow> sortedParams P ps = spec_canonicalQuery ps"
    using sortedParams_spec [of ps P] by (simp add: searchParams_delete_both)
  from 1 2 3 have "\<exists>qs. sortedParams P ps = array_join ''&'' (map (\<lambda>(k, v). k @ ''='' @ v) qs)
         \<and> mset qs = mset ?rest \<and> (consistentOn P (map fst ?rest) \<longrightarrow> stableSortOf P qs ?rest)"
    by blast
  with verifyShopifyHmac_accepts [of P ps secret] 4 show ?thesis by blast
qed

lemma callback_keys_consistent:
  "consistentOn examplePlatform
     (map fst (filter (\<lambda>(k, v). k \<noteq> ''hmac'' \<and> k \<noteq> ''signature'') (searchParams (callbackRequest shopA))))"
  by (simp add: consistentOn_def keyBefore_def example_defs caseFirstCompare_def toLowerCase_def)

lemma callback_keys_agree:
  "\<forall>a \<in> fst ` set (filter (\<lambda>(k, v). k \<noteq> ''hmac'' \<and> k \<noteq> ''signature'') (searchParams (callbackRequest shopA))).
   \<forall>b \<in> fst ` set (filter (\<lambda>(k, v). k \<noteq> ''hmac'' \<and> k \<noteq> ''signature'') (searchParams (callbackRequest shopA))).
     (localeCompare examplePlatform a b \<le> 0) = (a \<le> b)"
  by (simp add: example_defs caseFirstCompare_def toLowerCase_def)

lemma callback_signed:
  "map_of (searchParams (callbackRequest shopA)) ''hmac''
     = Some ''636f64653d63312673686f703d73686f702d612e6d7973686f706966792e636f''"
  "hmacSha256 examplePlatform (TextEncoder_encode ''app-secret'')
     (TextEncoder_encode ''code=c1&shop=shop-a.myshopify.com&state=s1'')
     = Some (take 32 (TextEncoder_encode ''code=c1&shop=shop-a.myshopify.com&state=s1''))"
  "spec_canonicalQuery (searchParams (callbackRequest shopA)) = ''code=c1&shop=shop-a.myshopify.com&state=s1''"
  "spec_lowerHex (take 32 (TextEncoder_encode ''code=c1&shop=shop-a.myshopify.com&state=s1''))
     = ''636f64653d63312673686f703d73686f702d612e6d7973686f706966792e636f''"
  by code_simp+

theorem verifyShopifyHmac_locale_sorted_witness:
  "consistentOn examplePlatform
     (map fst (filter (\<lambda>(k, v). k \<noteq> ''hmac'' \<and> k \<noteq> ''signature'') (searchParams (callbackRequest shopA))))
   \<and> sortedParams examplePlatform (searchParams (callbackRequest shopA))
       = ''code=c1&shop=shop-a.myshopify.com&state=s1''
   \<and> verifyShopifyHmac examplePlatform (searchParams (callbackRequest shopA)) ''app-secret''
   \<and> (\<exists>qs. sortedParams examplePlatform (searchParams (callbackRequest shopA))
               = array_join ''&'' (map (\<lambda>(k, v). k @ ''='' @ v) qs)
         \<and> stableSortOf examplePlatform qs
              (filter (\<lambda>(k, v). k \<noteq> ''hmac'' \<and> k \<noteq> ''signature'') (searchParams (callbackRequest shopA))))"
proof -
  note t = verifyShopifyHmac_locale_sorted [of examplePlatform "searchParams (callbackRequest shopA)" "''app-secret''"]
  from t callback_keys_agree callback_signed(3)
  have s: "sortedParams examplePlatform (searchParams (callbackRequest shopA))
       = ''code=c1&shop=shop-a.myshopify.com&state=s1''"
    by simp
  from t callback_signed(1,2,4) have v: "verifyShopifyHmac examplePlatform (searchParams (callbackRequest shopA)) ''app-secret''"
    unfolding s by blast
  from t callback_keys_consistent
  have "\<exists>qs. sortedParams examplePlatform (searchParams (callbackRequest shopA))
               = array_join ''&'' (map (\<lambda>(k, v). k @ ''='' @ v) qs)
         \<and> stableSortOf examplePlatform qs
              (filter (\<lambda>(k, v). k \<noteq> ''hmac'' \<and> k \<noteq> ''signature'') (searchParams (callbackRequest shopA)))"
    by blast
  with s v callback_keys_consistent show ?thesis by blast
qed

text \<open>
  A runtime whose \<open>localeCompare\<close> puts \<open>a\<close> before \<open>B\<close> signs \<open>a=1&B=2\<close>, not the
  byte-wise sorted \<open>B=2&a=1\<close>: the verifier accepts a signature that the verifier of the
  specification rejects.
\<close>

theorem verifyShopifyHmac_not_bytewise:
  "sortedParams examplePlatform mixedCaseParams = ''a=1&B=2''
   \<and> spec_canonicalQuery mixedCaseParams = ''B=2&a=1''
   \<and> verifyShopifyHmac examplePlatform mixedCaseParams ''app-secret''
   \<and> \<not> spec_verifyAuthorizationSignature examplePlatform mixedCaseParams ''app-secret''"
  by code_simp

section \<open>The state token is consumed\<close>

lemma fetch_world: "snd (fetch P r w) = w\<lparr>events := events w @ [Fetch r]\<rparr>"
  by (simp add: fetch_def)

lemma registerWebhook_world:
  "\<exists>es. registerWebhook P E shop tok topic w = w\<lparr>events := events w @ es\<rparr>"
proof (cases "toString tok")
  case None
  have "w = w\<lparr>events := events w @ []\<rparr>" by simp
  with None show ?thesis unfolding registerWebhook_def by (metis option.simps(4))
next
  case (Some header)
  then show ?thesis unfolding registerWebhook_def fetch_world by (metis option.simps(5))
qed

lemma registerMandatoryWebhooks_world:
  "\<exists>es. registerMandatoryWebhooks P E shop tok w = w\<lparr>events := events w @ es\<rparr>"
proof -
  have "\<exists>es. fold (registerWebhook P E shop tok) ts w = w\<lparr>events := events w @ es\<rparr>" for ts
  proof (induction ts arbitrary: w)
    case Nil
    have "w = w\<lparr>events := events w @ []\<rparr>" by simp
    then show ?case by (metis fold_simps(1))
  next
    case (Cons t ts)
    obtain es1 where r: "registerWebhook P E shop tok t w = w\<lparr>events := events w @ es1\<rparr>"
      using registerWebhook_world by blast
    obtain es where "fold (registerWebhook P E shop tok) ts (w\<lparr>events := events w @ es1\<rparr>)
        = (w\<lparr>events := events w @ es1\<rparr>)\<lparr>events := events (w\<lparr>events := events w @ es1\<rparr>) @ es\<rparr>"
      using Cons.IH by blast
    then have "fold (registerWebhook P E shop tok) (t # ts) w = w\<lparr>events := events w @ (es1 @ es)\<rparr>"
      using r by simp
    then show ?case by blast
  qed
  then show ?thesis by (simp add: registerMandatoryWebhooks_def)
qed

lemma exchangeCodeForToken_world:
  "\<exists>r. snd (exchangeCodeForToken P E shop code w) = w\<lparr>events := events w @ [Fetch r]\<rparr>"
  by (auto simp: exchangeCodeForToken_def fetch_def split: sum.splits)

lemma storeShopData_world:
  "\<exists>s es. snd (storeShopData P shop tokenData w) = w\<lparr>SHOPS := s, events := events w @ es\<rparr>"
proof (cases "tokenData = JNull")
  case True
  have "w = w\<lparr>SHOPS := SHOPS w, events := events w @ []\<rparr>" by simp
  with True show ?thesis by (metis storeShopData_def snd_conv)
next
  case False
  then show ?thesis by (simp add: storeShopData_def SHOPS_put_def) blast
qed

text \<open>What the callback does once the state matches.\<close>

lemma handleOAuthCallback_matched:
  assumes "fromEntries (searchParams req) ''code'' = Some code" and "code \<noteq> []"
    and "fromEntries (searchParams req) ''shop'' = Some shop" and "shop \<noteq> []"
    and "fromEntries (searchParams req) ''state'' = Some state" and "state \<noteq> []"
    and "fromEntries (searchParams req) ''hmac'' = Some hmac" and "hmac \<noteq> []"
    and "kv_get (now w) (AUTH_STATES w) state = Some shop"
  shows "\<exists>s es. snd (handleOAuthCallback P E req w)
           = w\<lparr>SHOPS := s, AUTH_STATES := kv_delete (AUTH_STATES w) state,
               events := events w @ KvGet NsAuthStates state # KvDelete NsAuthStates state # es\<rparr>"
proof -
  let ?w2 = "w\<lparr>AUTH_STATES := kv_delete (AUTH_STATES w) state,
               events := events w @ [KvGet NsAuthStates state, KvDelete NsAuthStates state]\<rparr>"
  have w2: "AUTH_STATES_delete state (snd (AUTH_STATES_get state w)) = ?w2"
    by (simp add: AUTH_STATES_delete_def AUTH_STATES_get_def)
  have shape: "\<And>es s. ?w2\<lparr>SHOPS := s, events := events ?w2 @ es\<rparr>
     = w\<lparr>SHOPS := s, AUTH_STATES := kv_delete (AUTH_STATES w) state,
               events := events w @ KvGet NsAuthStates state # KvDelete NsAuthStates state # es\<rparr>"
    by simp
  show ?thesis
  proof (cases "verifyShopifyHmac P (searchParams req) (SHOPIFY_API_SECRET E)")
    case False
    with assms have "snd (handleOAuthCallback P E req w) = ?w2\<lparr>SHOPS := SHOPS w, events := events ?w2 @ []\<rparr>"
      by (simp add: handleOAuthCallback_def AUTH_STATES_get_def AUTH_STATES_delete_def)
    then show ?thesis unfolding shape by blast
  next
    case True
    obtain r where r: "snd (exchangeCodeForToken P E shop code ?w2) = ?w2\<lparr>events := events ?w2 @ [Fetch r]\<rparr>"
      using exchangeCodeForToken_world by blast
    let ?w3 = "?w2\<lparr>events := events ?w2 @ [Fetch r]\<rparr>"
    show ?thesis
    proof (cases "fst (exchangeCodeForToken P E shop code ?w2)")
      case (Inl e)
      with r have "exchangeCodeForToken P E shop code ?w2 = (Inl e, ?w3)" by (metis prod.collapse)
      with assms True have "snd (handleOAuthCallback P E req w) = ?w2\<lparr>SHOPS := SHOPS w, events := events ?w2 @ [Fetch r]\<rparr>"
        by (simp add: handleOAuthCallback_def AUTH_STATES_get_def AUTH_STATES_delete_def)
      then show ?thesis unfolding shape by blast
    next
      case (Inr tokenData)
      with r have x: "exchangeCodeForToken P E shop code ?w2 = (Inr tokenData, ?w3)" by (metis prod.collapse)
      obtain s es where st: "snd (storeShopData P shop tokenData ?w3) = ?w3\<lparr>SHOPS := s, events := events ?w3 @ es\<rparr>"
        using storeShopData_world by blast
      let ?w4 = "?w3\<lparr>SHOPS := s, events := events ?w3 @ es\<rparr>"
      show ?thesis
      proof (cases "fst (storeShopData P shop tokenData ?w3)")
        case (Inl e)
        with st have "storeShopData P shop tokenData ?w3 = (Inl e, ?w4)" by (metis prod.collapse)
        with assms True x have "snd (handleOAuthCallback P E req w) = ?w2\<lparr>SHOPS := s, events := events ?w2 @ Fetch r # es\<rparr>"
          by (simp add: handleOAuthCallback_def AUTH_STATES_get_def AUTH_STATES_delete_def)
        then show ?thesis unfolding shape by blast
      next
        case (Inr u)
        with st have y: "storeShopData P shop tokenData ?w3 = (Inr u, ?w4)" by (metis prod.collapse)
        obtain es' where "registerMandatoryWebhooks P E shop (getProperty tokenData ''access_token'') ?w4
            = ?w4\<lparr>events := events ?w4 @ es'\<rparr>"
          using registerMandatoryWebhooks_world by blast
        with assms True x y have "snd (handleOAuthCallback P E req w) = ?w2\<lparr>SHOPS := s, events := events ?w2 @ Fetch r # es @ es'\<rparr>"
          by (simp add: handleOAuthCallback_def AUTH_STATES_get_def AUTH_STATES_delete_def)
        then show ?thesis unfolding shape by blast
      qed
    qed
  qed
qed

lemma kv_get_delete: "kv_get t (kv_delete m k) k = None"
  by (simp add: kv_get_def kv_delete_def)

text \<open>
  C1 (amended). In the OAuth callback, when all four parameters are present and
  \<open>AUTH_STATES\<close> holds the supplied shop for the state token, the entry is deleted
  right after the lookup, before the signature is verified and before any outbound
  request, whatever the outcome of the rest of the callback. The entry is absent
  afterwards, and a second callback presenting the same token fails with
  \<open>AuthenticationError\<close> (invalid state).
\<close>

theorem handleOAuthCallback_consumes_state:
  assumes "fromEntries (searchParams req) ''code'' = Some code" and "code \<noteq> []"
    and "fromEntries (searchParams req) ''shop'' = Some shop" and "shop \<noteq> []"
    and "fromEntries (searchParams req) ''state'' = Some state" and "state \<noteq> []"
    and "fromEntries (searchParams req) ''hmac'' = Some hmac" and "hmac \<noteq> []"
    and "kv_get (now w) (AUTH_STATES w) state = Some shop"
  shows "(\<exists>s es. snd (handleOAuthCallback P E req w)
            = w\<lparr>SHOPS := s, AUTH_STATES := kv_delete (AUTH_STATES w) state,
                events := events w @ KvGet NsAuthStates state # KvDelete NsAuthStates state # es\<rparr>)
         \<and> AUTH_STATES (snd (handleOAuthCallback P E req w)) state = None
         \<and> (\<forall>req2 code2 shop2 hmac2.
               fromEntries (searchParams req2) ''code'' = Some code2 \<and> code2 \<noteq> []
               \<and> fromEntries (searchParams req2) ''shop'' = Some shop2 \<and> shop2 \<noteq> []
               \<and> fromEntries (searchParams req2) ''state'' = Some state
               \<and> fromEntries (searchParams req2) ''hmac'' = Some hmac2 \<and> hmac2 \<noteq> []
               \<longrightarrow> fst (handleOAuthCallback P E req2 (snd (handleOAuthCallback P E req w)))
                     = Inl (AuthenticationError INVALID_STATE 403))"
proof -
  obtain s es where w': "snd (handleOAuthCallback P E req w)
            = w\<lparr>SHOPS := s, AUTH_STATES := kv_delete (AUTH_STATES w) state,
                events := events w @ KvGet NsAuthStates state # KvDelete NsAuthStates state # es\<rparr>"
    using handleOAuthCallback_matched [OF assms] by blast
  have gone: "AUTH_STATES (snd (handleOAuthCallback P E req w)) state = None"
    by (simp add: w' kv_delete_def)
  have "fst (handleOAuthCallback P E req2 (snd (handleOAuthCallback P E req w)))
          = Inl (AuthenticationError INVALID_STATE 403)"
    if "fromEntries (searchParams req2) ''code'' = Some code2" "code2 \<noteq> []"
      "fromEntries (searchParams req2) ''shop'' = Some shop2" "shop2 \<noteq> []"
      "fromEntries (searchParams req2) ''state'' = Some state"
      "fromEntries (searchParams req2) ''hmac'' = Some hmac2" "hmac2 \<noteq> []"
    for req2 code2 shop2 hmac2
  proof -
    have "kv_get (now (snd (handleOAuthCallback P E req w)))
            (AUTH_STATES (snd (handleOAuthCallback P E req w))) state \<noteq> Some shop2"
      using gone by (simp add: kv_get_absent)
    from callback_state_mismatch [OF that(1-5) assms(6) that(6,7) this]
    show ?thesis by simp
  qed
  with w' gone show ?thesis by blast
qed

lemma callback_shopA_verifies:
  "verifyShopifyHmac examplePlatform (searchParams (callbackRequest shopA)) (SHOPIFY_API_SECRET exampleEnv)"
  by code_simp

theorem handleOAuthCallback_consumes_state_witness:
  "AUTH_STATES (snd (handleOAuthCallback examplePlatform exampleEnv (callbackRequest shopA) installedWorld))
     ''s1'' = None
   \<and> fst (handleOAuthCallback examplePlatform exampleEnv (callbackRequest shopA)
            (snd (handleOAuthCallback examplePlatform exampleEnv (callbackRequest shopA) installedWorld)))
       = Inl (AuthenticationError INVALID_STATE 403)"
proof -
  have c: "fromEntries (searchParams (callbackRequest shopA)) ''code'' = Some ''c1''"
    and s: "fromEntries (searchParams (callbackRequest shopA)) ''shop'' = Some shopA"
    and t: "fromEntries (searchParams (callbackRequest shopA)) ''state'' = Some ''s1''"
    and h: "fromEntries (searchParams (callbackRequest shopA)) ''hmac''
              = Some ''636f64653d63312673686f703d73686f702d612e6d7973686f706966792e636f''"
    and k: "kv_get (now installedWorld) (AUTH_STATES installedWorld) ''s1'' = Some shopA"
    by (simp_all add: fromEntries_def kv_get_def callbackRequest_def exampleRequest_def
        installedWorld_def)
  have ne: "''c1'' \<noteq> []" "shopA \<noteq> []" "''s1'' \<noteq> []"
      "''636f64653d63312673686f703d73686f702d612e6d7973686f706966792e636f'' \<noteq> []"
    by (simp_all add: shopA_def)
  from handleOAuthCallback_consumes_state
         [OF c ne(1) s ne(2) t ne(3) h ne(4) k, of examplePlatform exampleEnv]
       c s t h ne
  show ?thesis by blast
qed

text \<open>
  When the stored shop differs from the supplied one, the callback fails before the
  deletion and the entry stays: the shop the token was issued for can still complete the
  authorization with the same token.
\<close>

theorem handleOAuthCallback_mismatch_keeps_state:
  "handleOAuthCallback examplePlatform exampleEnv (callbackRequest ''shop-b.myshopify.com'') installedWorld
     = (Inl (AuthenticationError INVALID_STATE 403),
        installedWorld\<lparr>events := [KvGet NsAuthStates ''s1'']\<rparr>)
   \<and> kv_get (now installedWorld)
         (AUTH_STATES (installedWorld\<lparr>events := [KvGet NsAuthStates ''s1'']\<rparr>)) ''s1'' = Some shopA
   \<and> fst (handleOAuthCallback examplePlatform exampleEnv (callbackRequest shopA)
            (installedWorld\<lparr>events := [KvGet NsAuthStates ''s1'']\<rparr>))
       = Inr (Redirect (Url ''https://shop-a.myshopify.com/admin/apps/gateway'' []) 302)"
proof -
  have a: "handleOAuthCallback examplePlatform exampleEnv (callbackRequest ''shop-b.myshopify.com'') installedWorld
     = (Inl (AuthenticationError INVALID_STATE 403),
        installedWorld\<lparr>events := [KvGet NsAuthStates ''s1'']\<rparr>)"
    by (simp add: handleOAuthCallback_def fromEntries_def AUTH_STATES_get_def kv_get_def example_defs)
  have b: "kv_get (now installedWorld)
         (AUTH_STATES (installedWorld\<lparr>events := [KvGet NsAuthStates ''s1'']\<rparr>)) ''s1'' = Some shopA"
    by (simp add: kv_get_def example_defs)
  have c: "fst (handleOAuthCallback examplePlatform exampleEnv (callbackRequest shopA)
            (installedWorld\<lparr>events := [KvGet NsAuthStates ''s1'']\<rparr>))
       = Inr (Redirect (Url ''https://shop-a.myshopify.com/admin/apps/gateway'' []) 302)"
    using callback_shopA_verifies
    by (simp add: handleOAuthCallback_def fromEntries_def AUTH_STATES_get_def AUTH_STATES_delete_def
        kv_get_def exchangeCodeForToken_def fetch_def storeShopData_def SHOPS_put_def example_defs)
  from a b c show ?thesis by blast
qed

section \<open>Domain validation\<close>

lemma kv_get_Some_entry: "kv_get t m k = Some v \<Longrightarrow> \<exists>e. m k = Some (v, e)"
  by (auto simp: kv_get_def split: option.splits if_splits)

lemma shopDomainRegex_nonempty: "shopDomainRegex s \<Longrightarrow> s \<noteq> []"
  by (auto simp: shopDomainRegex_def Let_def)

lemma isValidShopDomain_JStr: "isValidShopDomain (Some (JStr s)) = Some (shopDomainRegex s)"
  using shopDomainRegex_nonempty by (auto simp: isValidShopDomain_def)

lemma isValidShopDomain_param:
  "isValidShopDomain (map_option JStr x)
     = Some (case x of None \<Rightarrow> False | Some s \<Rightarrow> shopDomainRegex s)"
  by (cases x) (simp_all add: isValidShopDomain_JStr, simp add: isValidShopDomain_def)

lemma isValidShopDomain_mismatch:
  "toString shop = Some s \<Longrightarrow> \<not> shopDomainRegex s \<Longrightarrow> isValidShopDomain shop = Some False"
  by (simp add: isValidShopDomain_def)

text \<open>
  C3 (amended). Root entry (for a non-empty identifier), auth initiation and credential
  issuance (for an identifier in the body that converts to a string) reject an
  identifier that does not match the regular expression before any store access, with
  the message \<open>Invalid shop domain\<close> and status 400: root entry and auth initiation
  throw \<open>ValidationError\<close>, credential issuance answers with an error payload. The world
  is returned as it was. Auth initiation, and credential issuance when the body is not
  \<open>null\<close>, answer a missing identifier in the same way. The OAuth callback does not test the identifier against the
  regular expression: it reads the state token first, and, since \<open>AUTH_STATES\<close> holds
  valid domains only, rejects such an identifier with \<open>AuthenticationError\<close> (invalid
  state), after that one read and before anything else.
\<close>

theorem invalid_domain_rejected:
  "(searchParams_get (searchParams req) ''shop'' = Some shop \<and> shop \<noteq> [] \<and> \<not> shopDomainRegex shop
      \<longrightarrow> handleRootPath P E req w = (Inl (ValidationError INVALID_SHOP 400), w))
   \<and> (searchParams_get (searchParams req) ''shop'' = Some shop \<and> \<not> shopDomainRegex shop
      \<longrightarrow> handleOAuth P E req w = (Inl (ValidationError INVALID_SHOP 400), w))
   \<and> (searchParams_get (searchParams req) ''shop'' = None
      \<longrightarrow> handleOAuth P E req w = (Inl (ValidationError INVALID_SHOP 400), w))
   \<and> (getProperty (parseJsonBody P req) ''shop'' = Some v \<and> toString (Some v) = Some shop
      \<and> \<not> shopDomainRegex shop
      \<longrightarrow> handleExtensionAuth P E req w
           = (Inr (JsonResponse (JObj [(''error'', JStr INVALID_SHOP)]) 400), w))
   \<and> (parseJsonBody P req \<noteq> JNull \<and> getProperty (parseJsonBody P req) ''shop'' = None
      \<longrightarrow> handleExtensionAuth P E req w
           = (Inr (JsonResponse (JObj [(''error'', JStr INVALID_SHOP)]) 400), w))
   \<and> (fromEntries (searchParams req) ''code'' = Some code \<and> code \<noteq> []
      \<and> fromEntries (searchParams req) ''shop'' = Some shop \<and> shop \<noteq> []
      \<and> fromEntries (searchParams req) ''state'' = Some state \<and> state \<noteq> []
      \<and> fromEntries (searchParams req) ''hmac'' = Some hmac \<and> hmac \<noteq> []
      \<and> \<not> shopDomainRegex shop
      \<and> statesValid w
      \<longrightarrow> handleOAuthCallback P E req w
           = (Inl (AuthenticationError INVALID_STATE 403),
              w\<lparr>events := events w @ [KvGet NsAuthStates state]\<rparr>))"
proof -
  have root: "handleRootPath P E req w = (Inl (ValidationError INVALID_SHOP 400), w)"
    if "searchParams_get (searchParams req) ''shop'' = Some shop" "shop \<noteq> []" "\<not> shopDomainRegex shop"
    using that by (simp add: handleRootPath_def isValidShopDomain_JStr)
  have auth: "handleOAuth P E req w = (Inl (ValidationError INVALID_SHOP 400), w)"
    if "searchParams_get (searchParams req) ''shop'' = Some shop" "\<not> shopDomainRegex shop"
    using that by (simp add: handleOAuth_def isValidShopDomain_JStr)
  have auth0: "handleOAuth P E req w = (Inl (ValidationError INVALID_SHOP 400), w)"
    if "searchParams_get (searchParams req) ''shop'' = None"
    using that by (simp add: handleOAuth_def isValidShopDomain_def)
  have issue: "handleExtensionAuth P E req w
           = (Inr (JsonResponse (JObj [(''error'', JStr INVALID_SHOP)]) 400), w)"
    if p: "getProperty (parseJsonBody P req) ''shop'' = Some v"
      and "toString (Some v) = Some shop" "\<not> shopDomainRegex shop"
  proof -
    from p have "parseJsonBody P req \<noteq> JNull" by auto
    moreover from that have "isValidShopDomain (getProperty (parseJsonBody P req) ''shop'') = Some False"
      by (simp add: isValidShopDomain_mismatch)
    ultimately show ?thesis
      by (simp add: handleExtensionAuth_def)
  qed
  have issue0: "handleExtensionAuth P E req w
           = (Inr (JsonResponse (JObj [(''error'', JStr INVALID_SHOP)]) 400), w)"
    if "parseJsonBody P req \<noteq> JNull" "getProperty (parseJsonBody P req) ''shop'' = None"
    using that by (simp add: handleExtensionAuth_def isValidShopDomain_def)
  have cb: "handleOAuthCallback P E req w
           = (Inl (AuthenticationError INVALID_STATE 403),
              w\<lparr>events := events w @ [KvGet NsAuthStates state]\<rparr>)"
    if p: "fromEntries (searchParams req) ''code'' = Some code" "code \<noteq> []"
      "fromEntries (searchParams req) ''shop'' = Some shop" "shop \<noteq> []"
      "fromEntries (searchParams req) ''state'' = Some state" "state \<noteq> []"
      "fromEntries (searchParams req) ''hmac'' = Some hmac" "hmac \<noteq> []"
      and bad: "\<not> shopDomainRegex shop"
      and inv: "statesValid w"
  proof -
    have "kv_get (now w) (AUTH_STATES w) state \<noteq> Some shop"
      using bad inv kv_get_Some_entry unfolding statesValid_def by fastforce
    with p show ?thesis by (rule callback_state_mismatch)
  qed
  from root auth auth0 issue issue0 cb show ?thesis by blast
qed

lemma evil_invalid: "\<not> shopDomainRegex ''evil.example''"
  by (simp add: shopDomainRegex_def)

lemma installedWorld_statesValid: "statesValid installedWorld"
  by (simp add: statesValid_def installedWorld_def shopA_def shopDomainRegex_def isAlnum_def)

theorem invalid_domain_rejected_witness:
  "handleRootPath examplePlatform exampleEnv (shopRequest ''evil.example'') installedWorld
     = (Inl (ValidationError INVALID_SHOP 400), installedWorld)
   \<and> handleOAuth examplePlatform exampleEnv (shopRequest ''evil.example'') installedWorld
     = (Inl (ValidationError INVALID_SHOP 400), installedWorld)
   \<and> handleOAuth examplePlatform exampleEnv exampleRequest installedWorld
     = (Inl (ValidationError INVALID_SHOP 400), installedWorld)
   \<and> handleExtensionAuth examplePlatform exampleEnv evilIssueRequest installedWorld
     = (Inr (JsonResponse (JObj [(''error'', JStr INVALID_SHOP)]) 400), installedWorld)
   \<and> handleExtensionAuth examplePlatform exampleEnv exampleRequest installedWorld
     = (Inr (JsonResponse (JObj [(''error'', JStr INVALID_SHOP)]) 400), installedWorld)
   \<and> handleOAuthCallback examplePlatform exampleEnv (callbackRequest ''evil.example'') installedWorld
     = (Inl (AuthenticationError INVALID_STATE 403),
        installedWorld\<lparr>events := events installedWorld @ [KvGet NsAuthStates ''s1'']\<rparr>)"
proof -
  have m: "searchParams_get (searchParams exampleRequest) ''shop'' = None"
      "parseJsonBody examplePlatform exampleRequest \<noteq> JNull"
      "getProperty (parseJsonBody examplePlatform exampleRequest) ''shop'' = None"
    by (simp_all add: searchParams_get_def parseJsonBody_def example_defs)
  have r: "searchParams_get (searchParams (shopRequest ''evil.example'')) ''shop'' = Some ''evil.example''"
    by (simp add: searchParams_get_def shopRequest_def exampleRequest_def)
  have i: "getProperty (parseJsonBody examplePlatform evilIssueRequest) ''shop'' = Some (JStr ''evil.example'')"
     "toString (Some (JStr ''evil.example'')) = Some ''evil.example''"
    by (simp_all add: parseJsonBody_def example_defs)
  have c: "fromEntries (searchParams (callbackRequest ''evil.example'')) ''code'' = Some ''c1''"
      "fromEntries (searchParams (callbackRequest ''evil.example'')) ''shop'' = Some ''evil.example''"
      "fromEntries (searchParams (callbackRequest ''evil.example'')) ''state'' = Some ''s1''"
      "fromEntries (searchParams (callbackRequest ''evil.example'')) ''hmac''
              = Some ''636f64653d63312673686f703d73686f702d612e6d7973686f706966792e636f''"
    by (simp_all add: fromEntries_def callbackRequest_def exampleRequest_def)
  have ne: "''c1'' \<noteq> []" "''evil.example'' \<noteq> []" "''s1'' \<noteq> []"
      "''636f64653d63312673686f703d73686f702d612e6d7973686f706966792e636f'' \<noteq> []"
    by simp_all
  from invalid_domain_rejected
         [where req = "shopRequest ''evil.example''" and shop = "''evil.example''" and E = exampleEnv
            and w = installedWorld and P = examplePlatform]
    r evil_invalid
  have 1: "handleRootPath examplePlatform exampleEnv (shopRequest ''evil.example'') installedWorld
     = (Inl (ValidationError INVALID_SHOP 400), installedWorld)"
    and 2: "handleOAuth examplePlatform exampleEnv (shopRequest ''evil.example'') installedWorld
     = (Inl (ValidationError INVALID_SHOP 400), installedWorld)"
    by simp_all
  from invalid_domain_rejected
         [where req = evilIssueRequest and shop = "''evil.example''" and E = exampleEnv
            and w = installedWorld and P = examplePlatform and v = "JStr ''evil.example''"]
    i evil_invalid
  have 3: "handleExtensionAuth examplePlatform exampleEnv evilIssueRequest installedWorld
     = (Inr (JsonResponse (JObj [(''error'', JStr INVALID_SHOP)]) 400), installedWorld)"
    by blast
  from invalid_domain_rejected
         [where req = "callbackRequest ''evil.example''" and shop = "''evil.example''" and E = exampleEnv
            and w = installedWorld and P = examplePlatform and code = "''c1''" and state = "''s1''"
            and hmac = "''636f64653d63312673686f703d73686f702d612e6d7973686f706966792e636f''"]
    c ne evil_invalid installedWorld_statesValid
  have 4: "handleOAuthCallback examplePlatform exampleEnv (callbackRequest ''evil.example'') installedWorld
     = (Inl (AuthenticationError INVALID_STATE 403),
        installedWorld\<lparr>events := events installedWorld @ [KvGet NsAuthStates ''s1'']\<rparr>)"
    by blast
  from invalid_domain_rejected
         [where req = exampleRequest and E = exampleEnv and w = installedWorld and P = examplePlatform]
    m
  have 5: "handleOAuth examplePlatform exampleEnv exampleRequest installedWorld
     = (Inl (ValidationError INVALID_SHOP 400), installedWorld)"
    and 6: "handleExtensionAuth examplePlatform exampleEnv exampleRequest installedWorld
     = (Inr (JsonResponse (JObj [(''error'', JStr INVALID_SHOP)]) 400), installedWorld)"
    by simp_all
  from 1 2 3 4 5 6 show ?thesis by blast
qed

text \<open>
  The callback answers an identifier that does not match with \<open>AuthenticationError\<close>, not
  \<open>ValidationError\<close>, and has read \<open>AUTH_STATES\<close> by then. Root entry answers the empty
  identifier with the landing page.
\<close>

theorem handleOAuthCallback_no_domain_validation:
  "\<not> shopDomainRegex ''evil.example''
   \<and> handleOAuthCallback examplePlatform exampleEnv (callbackRequest ''evil.example'') installedWorld
       = (Inl (AuthenticationError INVALID_STATE 403),
          installedWorld\<lparr>events := [KvGet NsAuthStates ''s1'']\<rparr>)
   \<and> handleRootPath examplePlatform exampleEnv (shopRequest []) installedWorld
       = (Inr (HtmlResponse LandingPage 200), installedWorld)"
  by (simp add: evil_invalid handleOAuthCallback_def fromEntries_def AUTH_STATES_get_def kv_get_def
      handleRootPath_def searchParams_get_def example_defs)

section \<open>What each handler does to the world\<close>

lemma truthy_param: "truthy (map_option JStr x) \<longleftrightarrow> (\<exists>s. x = Some s \<and> s \<noteq> [])"
  by (cases x) auto

lemma isValidShopDomain_True:
  "isValidShopDomain shop = Some True \<Longrightarrow> \<exists>d. toString shop = Some d \<and> shopDomainRegex d"
  by (cases "toString shop") (auto simp: isValidShopDomain_def split: if_splits)

lemma handleRootPath_world:
  "\<exists>es. snd (handleRootPath P E req w) = w\<lparr>events := events w @ es\<rparr> \<and> fetches es = []"
proof -
  let ?shop = "searchParams_get (searchParams req) ''shop''"
  have a: "w = w\<lparr>events := events w @ []\<rparr>" by simp
  show ?thesis
  proof (cases "truthy (map_option JStr ?shop) \<and> isValidShopDomain (map_option JStr ?shop) = Some True")
    case False
    then have "snd (handleRootPath P E req w) = w\<lparr>events := events w @ []\<rparr>"
      by (auto simp: handleRootPath_def Let_def isValidShopDomain_param split: option.splits bool.splits)
    then show ?thesis by (metis fetches.simps(1))
  next
    case True
    then have "snd (handleRootPath P E req w) = w\<lparr>events := events w @ [KvGet NsShops (the ?shop)]\<rparr>"
      by (simp add: handleRootPath_def checkInstallation_def SHOPS_get_def Let_def)
    moreover have "fetches [KvGet NsShops (the ?shop)] = []" by simp
    ultimately show ?thesis by metis
  qed
qed

lemma handleOAuthCallback_world:
  "\<exists>s a es. snd (handleOAuthCallback P E req w) = w\<lparr>SHOPS := s, AUTH_STATES := a, events := events w @ es\<rparr>
     \<and> (a = AUTH_STATES w \<or> (\<exists>k. a = kv_delete (AUTH_STATES w) k))"
proof (cases "truthy (map_option JStr (fromEntries (searchParams req) ''code''))
            \<and> truthy (map_option JStr (fromEntries (searchParams req) ''shop''))
            \<and> truthy (map_option JStr (fromEntries (searchParams req) ''state''))
            \<and> truthy (map_option JStr (fromEntries (searchParams req) ''hmac''))")
  case False
  then have "snd (handleOAuthCallback P E req w) = w\<lparr>SHOPS := SHOPS w, AUTH_STATES := AUTH_STATES w, events := events w @ []\<rparr>"
    by (auto simp: handleOAuthCallback_def)
  then show ?thesis by blast
next
  case True
  then obtain code shop state hmac where p:
      "fromEntries (searchParams req) ''code'' = Some code" "code \<noteq> []"
      "fromEntries (searchParams req) ''shop'' = Some shop" "shop \<noteq> []"
      "fromEntries (searchParams req) ''state'' = Some state" "state \<noteq> []"
      "fromEntries (searchParams req) ''hmac'' = Some hmac" "hmac \<noteq> []"
    unfolding truthy_param by blast
  show ?thesis
  proof (cases "kv_get (now w) (AUTH_STATES w) state = Some shop")
    case True
    from handleOAuthCallback_matched [OF p True] show ?thesis by blast
  next
    case False
    from callback_state_mismatch [OF p False]
    have "snd (handleOAuthCallback P E req w)
        = w\<lparr>SHOPS := SHOPS w, AUTH_STATES := AUTH_STATES w, events := events w @ [KvGet NsAuthStates state]\<rparr>"
      by simp
    then show ?thesis by blast
  qed
qed

lemma handleShopRedact_world:
  "snd (handleShopRedact P data w) = w
   \<or> (\<exists>d. snd (handleShopRedact P data w) = SHOPS_delete d w)"
  by (auto simp: handleShopRedact_def Let_def split: option.splits)

lemma handleWebhook_world:
  "snd (handleWebhook P E req topic w) = w
   \<or> (\<exists>d. snd (handleWebhook P E req topic w) = SHOPS_delete d w)"
proof -
  have "snd (case x of (Inl e, w1) \<Rightarrow> (Inl e, w1) | (Inr u, w1) \<Rightarrow> (Inr (TextResponse [] 200), w1)) = snd x"
    for x :: "unit result"
    by (auto split: prod.splits sum.splits)
  then show ?thesis
    using handleShopRedact_world
    by (auto simp: handleWebhook_def handleCustomerRedact_def handleCustomerDataRequest_def
        split: sum.splits)
qed

lemma proxyToShopify_world:
  "snd (proxyToShopify P E shop endpoint method data tok w)
     = (case proxyOptions E shop endpoint method data tok of
          None \<Rightarrow> w
        | Some r \<Rightarrow> w\<lparr>events := events w @ [Fetch r]\<rparr>)"
  by (simp add: proxyToShopify_def fetch_def split: option.splits sum.splits)

lemma handleAPIProxy_world:
  "\<exists>es. snd (handleAPIProxy P E req w) = w\<lparr>events := events w @ es\<rparr>
        \<and> (\<forall>e \<in> set es. (\<exists>k. e = KvGet NsApiKeys k) \<or> (\<exists>r. e = Fetch r))"
proof (cases "truthy (map_option JStr (extractApiKey req))")
  case False
  then have "snd (handleAPIProxy P E req w) = w\<lparr>events := events w @ []\<rparr>"
    by (simp add: handleAPIProxy_def)
  then show ?thesis by (metis empty_iff empty_set)
next
  case True
  let ?k = "''key:'' @ the (extractApiKey req)"
  let ?w1 = "w\<lparr>events := events w @ [KvGet NsApiKeys ?k]\<rparr>"
  show ?thesis
  proof (cases "kv_get (now w) (API_KEYS w) ?k")
    case None
    with True have "snd (handleAPIProxy P E req w) = ?w1"
      by (simp add: handleAPIProxy_def API_KEYS_get_def)
    then show ?thesis by (intro exI[of _ "[KvGet NsApiKeys ?k]"]) simp
  next
    case (Some keyData)
    let ?body = "parseJsonBody P req"
    show ?thesis
    proof (cases "?body = JNull \<or> \<not> truthy (getProperty ?body ''endpoint'')")
      case True
      with \<open>truthy (map_option JStr (extractApiKey req))\<close> Some
      have "snd (handleAPIProxy P E req w) = ?w1"
        by (auto simp: handleAPIProxy_def API_KEYS_get_def Let_def)
      then show ?thesis by (intro exI[of _ "[KvGet NsApiKeys ?k]"]) simp
    next
      case False
      let ?p = "proxyToShopify P E (keyShop keyData) (getProperty ?body ''endpoint'')
                 (case getProperty ?body ''method'' of None \<Rightarrow> Some (JStr ''GET'') | Some m \<Rightarrow> Some m)
                 (getProperty ?body ''data'') (keyAccessToken keyData) ?w1"
      from False \<open>truthy (map_option JStr (extractApiKey req))\<close> Some
      have eq: "snd (handleAPIProxy P E req w) = snd ?p"
        by (auto simp: handleAPIProxy_def API_KEYS_get_def Let_def split: prod.splits sum.splits)
      have "snd ?p = ?w1 \<or> (\<exists>r. snd ?p = ?w1\<lparr>events := events ?w1 @ [Fetch r]\<rparr>)"
        unfolding proxyToShopify_world by (auto split: option.splits)
      then show ?thesis
      proof
        assume "snd ?p = ?w1"
        with eq have "snd (handleAPIProxy P E req w) = ?w1" by simp
        then show ?thesis by (intro exI[of _ "[KvGet NsApiKeys ?k]"]) simp
      next
        assume "\<exists>r. snd ?p = ?w1\<lparr>events := events ?w1 @ [Fetch r]\<rparr>"
        then obtain r where "snd ?p = ?w1\<lparr>events := events ?w1 @ [Fetch r]\<rparr>" by blast
        with eq have "snd (handleAPIProxy P E req w)
            = w\<lparr>events := events w @ [KvGet NsApiKeys ?k, Fetch r]\<rparr>" by simp
        then show ?thesis by (intro exI[of _ "[KvGet NsApiKeys ?k, Fetch r]"]) auto
      qed
    qed
  qed
qed

lemma handleOAuth_world:
  "snd (handleOAuth P E req w) = w
   \<or> (\<exists>state shop. shopDomainRegex shop
         \<and> snd (handleOAuth P E req w)
             = AUTH_STATES_put state shop STATE_TTL_SECONDS (snd (crypto_randomUUID P w)))"
proof (cases "searchParams_get (searchParams req) ''shop''")
  case None
  then show ?thesis by (simp add: handleOAuth_def isValidShopDomain_def)
next
  case (Some shop)
  show ?thesis
  proof (cases "shopDomainRegex shop")
    case False
    with Some show ?thesis by (simp add: handleOAuth_def isValidShopDomain_JStr)
  next
    case True
    with Some have "snd (handleOAuth P E req w)
       = AUTH_STATES_put (fst (crypto_randomUUID P w)) shop STATE_TTL_SECONDS (snd (crypto_randomUUID P w))"
      by (simp add: handleOAuth_def isValidShopDomain_JStr Let_def split_def)
    with True show ?thesis by blast
  qed
qed

lemma handleExtensionAuth_world:
  "(\<exists>es. snd (handleExtensionAuth P E req w) = w\<lparr>events := events w @ es\<rparr> \<and> fetches es = [])
   \<or> (\<exists>shop d shopData key.
         toString shop = Some d \<and> kv_get (now w) (SHOPS w) d = Some shopData
         \<and> snd (handleExtensionAuth P E req w)
             = API_KEYS_put key \<lparr>keyShop = shop, keyAccessToken = accessToken shopData, createdAt = now w\<rparr>
                 (86400 * API_KEY_TTL_DAYS)
                 (snd (crypto_randomUUID P (snd (SHOPS_get d w)))))"
proof -
  let ?body = "parseJsonBody P req"
  let ?shop = "getProperty ?body ''shop''"
  show ?thesis
  proof (cases "?body \<noteq> JNull \<and> isValidShopDomain ?shop = Some True")
    case False
    then have "snd (handleExtensionAuth P E req w) = w\<lparr>events := events w @ []\<rparr>"
      by (auto simp: handleExtensionAuth_def Let_def split: option.splits bool.splits)
    then show ?thesis by (metis fetches.simps(1))
  next
    case True
    then obtain d where d: "toString ?shop = Some d"
      using isValidShopDomain_True by blast
    show ?thesis
    proof (cases "kv_get (now w) (SHOPS w) d")
      case None
      with True d have "snd (handleExtensionAuth P E req w)
          = w\<lparr>events := events w @ [KvGet NsShops d]\<rparr>"
        by (simp add: handleExtensionAuth_def Let_def SHOPS_get_def)
      moreover have "fetches [KvGet NsShops d] = []" by simp
      ultimately show ?thesis by metis
    next
      case (Some shopData)
      with True d have "snd (handleExtensionAuth P E req w)
             = API_KEYS_put (''key:'' @ fst (crypto_randomUUID P (snd (SHOPS_get d w))))
                 \<lparr>keyShop = ?shop, keyAccessToken = accessToken shopData, createdAt = now w\<rparr>
                 (86400 * API_KEY_TTL_DAYS)
                 (snd (crypto_randomUUID P (snd (SHOPS_get d w))))"
        by (simp add: handleExtensionAuth_def Let_def SHOPS_get_def crypto_randomUUID_def split_def)
      with Some d show ?thesis by blast
    qed
  qed
qed

text \<open>Only credential issuance writes \<open>API_KEYS\<close>.\<close>

lemma API_KEYS_handleRootPath: "API_KEYS (snd (handleRootPath P E req w)) = API_KEYS w"
  using handleRootPath_world [of P E req w] by auto

lemma API_KEYS_handleOAuth: "API_KEYS (snd (handleOAuth P E req w)) = API_KEYS w"
  using handleOAuth_world [of P E req w]
  by (auto simp: AUTH_STATES_put_def crypto_randomUUID_def)

lemma API_KEYS_handleOAuthCallback: "API_KEYS (snd (handleOAuthCallback P E req w)) = API_KEYS w"
  using handleOAuthCallback_world [of P E req w] by auto

lemma API_KEYS_handleWebhook: "API_KEYS (snd (handleWebhook P E req topic w)) = API_KEYS w"
  using handleWebhook_world [of P E req topic w] by (auto simp: SHOPS_delete_def)

lemma API_KEYS_handleAPIProxy: "API_KEYS (snd (handleAPIProxy P E req w)) = API_KEYS w"
  using handleAPIProxy_world [of P E req w] by auto

lemma API_KEYS_handleExtensionAuth:
  assumes "API_KEYS (snd (handleExtensionAuth P E req w)) k = Some (kd, e)"
    and "API_KEYS w k \<noteq> Some (kd, e)"
  shows "\<exists>d. toString (keyShop kd) = Some d \<and> kv_get (now w) (SHOPS w) d \<noteq> None"
  using handleExtensionAuth_world [of P E req w]
proof
  assume "\<exists>es. snd (handleExtensionAuth P E req w) = w\<lparr>events := events w @ es\<rparr> \<and> fetches es = []"
  with assms show ?thesis by auto
next
  assume "\<exists>shop d shopData key.
         toString shop = Some d \<and> kv_get (now w) (SHOPS w) d = Some shopData
         \<and> snd (handleExtensionAuth P E req w)
             = API_KEYS_put key \<lparr>keyShop = shop, keyAccessToken = accessToken shopData, createdAt = now w\<rparr>
                 (86400 * API_KEY_TTL_DAYS)
                 (snd (crypto_randomUUID P (snd (SHOPS_get d w))))"
  then obtain shop d shopData key where
      t: "toString shop = Some d"
      and g: "kv_get (now w) (SHOPS w) d = Some shopData"
      and w': "snd (handleExtensionAuth P E req w)
             = API_KEYS_put key \<lparr>keyShop = shop, keyAccessToken = accessToken shopData, createdAt = now w\<rparr>
                 (86400 * API_KEY_TTL_DAYS)
                 (snd (crypto_randomUUID P (snd (SHOPS_get d w))))"
    by blast
  have "API_KEYS (snd (handleExtensionAuth P E req w))
      = (API_KEYS w)(key \<mapsto> (\<lparr>keyShop = shop, keyAccessToken = accessToken shopData, createdAt = now w\<rparr>,
                              Some (now w + 86400 * API_KEY_TTL_DAYS)))"
    by (simp add: w' API_KEYS_put_def kv_put_def crypto_randomUUID_def SHOPS_get_def)
  with assms have "kd = \<lparr>keyShop = shop, keyAccessToken = accessToken shopData, createdAt = now w\<rparr>"
    by (auto split: if_splits)
  with t g show ?thesis by simp
qed

lemma API_KEYS_routeRequest:
  assumes "API_KEYS (snd (routeRequest P E req w)) k = Some (kd, e)"
    and "API_KEYS w k \<noteq> Some (kd, e)"
  shows "\<exists>d. toString (keyShop kd) = Some d \<and> kv_get (now w) (SHOPS w) d \<noteq> None"
proof (cases "pathname req = ''/api/auth''")
  case True
  with assms have "API_KEYS (snd (handleExtensionAuth P E req w)) k = Some (kd, e)"
    by (simp add: routeRequest_def)
  then show ?thesis using assms(2) by (rule API_KEYS_handleExtensionAuth)
next
  case False
  then have "API_KEYS (snd (routeRequest P E req w)) = API_KEYS w"
    by (simp add: routeRequest_def API_KEYS_handleRootPath API_KEYS_handleOAuth
        API_KEYS_handleOAuthCallback API_KEYS_handleWebhook API_KEYS_handleAPIProxy)
  with assms show ?thesis by simp
qed

text \<open>Every handler keeps the invariant of \<open>AUTH_STATES\<close>.\<close>

lemma statesValid_cong: "AUTH_STATES w' = AUTH_STATES w \<Longrightarrow> statesValid w \<Longrightarrow> statesValid w'"
  by (simp add: statesValid_def)

lemma statesValid_routeRequest:
  assumes "statesValid w"
  shows "statesValid (snd (routeRequest P E req w))"
proof -
  have root: "statesValid (snd (handleRootPath P E req w))"
    using handleRootPath_world [of P E req w] assms by (auto intro: statesValid_cong)
  have auth: "statesValid (snd (handleOAuth P E req w))"
    using handleOAuth_world [of P E req w]
  proof
    assume "snd (handleOAuth P E req w) = w"
    with assms show ?thesis by simp
  next
    assume "\<exists>state shop. shopDomainRegex shop
         \<and> snd (handleOAuth P E req w)
             = AUTH_STATES_put state shop STATE_TTL_SECONDS (snd (crypto_randomUUID P w))"
    then obtain state shop where v: "shopDomainRegex shop"
      and "snd (handleOAuth P E req w)
             = AUTH_STATES_put state shop STATE_TTL_SECONDS (snd (crypto_randomUUID P w))"
      by blast
    then have "AUTH_STATES (snd (handleOAuth P E req w))
        = (AUTH_STATES w)(state \<mapsto> (shop, Some (now w + STATE_TTL_SECONDS)))"
      by (simp add: AUTH_STATES_put_def kv_put_def crypto_randomUUID_def)
    with assms v show ?thesis unfolding statesValid_def by (auto split: if_splits; blast)
  qed
  have cb: "statesValid (snd (handleOAuthCallback P E req w))"
  proof -
    from handleOAuthCallback_world [of P E req w]
    have "AUTH_STATES (snd (handleOAuthCallback P E req w)) = AUTH_STATES w
          \<or> (\<exists>k. AUTH_STATES (snd (handleOAuthCallback P E req w)) = (AUTH_STATES w)(k := None))"
      by (auto simp: kv_delete_def)
    with assms show ?thesis unfolding statesValid_def by (auto split: if_splits; blast)
  qed
  have hook: "statesValid (snd (handleWebhook P E req topic w))" for topic
    using handleWebhook_world [of P E req topic w] assms
    by (auto intro: statesValid_cong simp: SHOPS_delete_def)
  have issue: "statesValid (snd (handleExtensionAuth P E req w))"
    using handleExtensionAuth_world [of P E req w] assms
    by (auto intro!: statesValid_cong [of _ w] simp: API_KEYS_put_def crypto_randomUUID_def SHOPS_get_def)
  have proxy: "statesValid (snd (handleAPIProxy P E req w))"
    using handleAPIProxy_world [of P E req w] assms by (auto intro: statesValid_cong)
  from root auth cb hook issue proxy assms show ?thesis
    by (simp add: routeRequest_def)
qed

section \<open>Credential issuance\<close>

lemma isValidShopDomain_not_null:
  "isValidShopDomain (getProperty body name) = Some True \<Longrightarrow> body \<noteq> JNull"
  by (auto simp: isValidShopDomain_def)

lemma handleExtensionAuth_not_installed:
  assumes "isValidShopDomain (getProperty (parseJsonBody P req) ''shop'') = Some True"
    and "toString (getProperty (parseJsonBody P req) ''shop'') = Some d"
    and "kv_get (now w) (SHOPS w) d = None"
  shows "handleExtensionAuth P E req w
           = (Inr (JsonResponse (JObj [(''error'', JStr APP_NOT_INSTALLED),
                                       (''install_url'', JStr (''https://apps.shopify.com/''
                                                               @ SHOPIFY_APP_HANDLE E))]) 403),
              w\<lparr>events := events w @ [KvGet NsShops d]\<rparr>)"
  using assms isValidShopDomain_not_null [OF assms(1)]
  by (simp add: handleExtensionAuth_def Let_def SHOPS_get_def)

text \<open>
  C6. For a (valid) shop domain \<open>d\<close> without a live MerchantRecord in \<open>SHOPS\<close>, credential
  issuance returns the structured \<open>App not installed\<close> payload with status 403: it does
  not throw, and the world gains only the read of \<open>SHOPS\<close>, so no ClientCredential is
  persisted. Hence, whatever the request, an entry of \<open>API_KEYS\<close> that was not already
  there before the request was created for a shop that had a MerchantRecord at that
  time.
\<close>

theorem issuance_requires_installation:
  "(isValidShopDomain (getProperty (parseJsonBody P req) ''shop'') = Some True
      \<and> toString (getProperty (parseJsonBody P req) ''shop'') = Some d
      \<and> kv_get (now w) (SHOPS w) d = None
    \<longrightarrow> handleExtensionAuth P E req w
          = (Inr (JsonResponse (JObj [(''error'', JStr APP_NOT_INSTALLED),
                                      (''install_url'', JStr (''https://apps.shopify.com/''
                                                              @ SHOPIFY_APP_HANDLE E))]) 403),
             w\<lparr>events := events w @ [KvGet NsShops d]\<rparr>))
   \<and> (API_KEYS (snd (routeRequest P E req w)) k = Some (kd, e) \<and> API_KEYS w k \<noteq> Some (kd, e)
    \<longrightarrow> (\<exists>d'. toString (keyShop kd) = Some d' \<and> kv_get (now w) (SHOPS w) d' \<noteq> None))"
  using handleExtensionAuth_not_installed [of P req d w E] API_KEYS_routeRequest [of P E req w k kd e]
  by blast

lemma issue_installed:
  "API_KEYS (snd (routeRequest examplePlatform exampleEnv issueRequest installedWorld)) ''key:uu''
     = Some (\<lparr>keyShop = Some (JStr shopA), keyAccessToken = Some (JStr ''shpat_1''), createdAt = 100\<rparr>,
             Some 7776100)"
  by (simp add: routeRequest_def handleExtensionAuth_def parseJsonBody_def isValidShopDomain_JStr
      Let_def SHOPS_get_def kv_get_def crypto_randomUUID_def API_KEYS_put_def kv_put_def API_KEY_TTL_DAYS_def
      shopDomainRegex_def isAlnum_def example_defs)

theorem issuance_requires_installation_witness:
  "handleExtensionAuth examplePlatform exampleEnv issueRequest emptyWorld
     = (Inr (JsonResponse (JObj [(''error'', JStr APP_NOT_INSTALLED),
                                 (''install_url'', JStr ''https://apps.shopify.com/gateway'')]) 403),
        emptyWorld\<lparr>events := [KvGet NsShops shopA]\<rparr>)
   \<and> API_KEYS (snd (routeRequest examplePlatform exampleEnv issueRequest installedWorld)) ''key:uu''
       = Some (\<lparr>keyShop = Some (JStr shopA), keyAccessToken = Some (JStr ''shpat_1''), createdAt = 100\<rparr>,
               Some 7776100)
   \<and> API_KEYS installedWorld ''key:uu''
       \<noteq> Some (\<lparr>keyShop = Some (JStr shopA), keyAccessToken = Some (JStr ''shpat_1''), createdAt = 100\<rparr>,
               Some 7776100)
   \<and> kv_get (now installedWorld) (SHOPS installedWorld) shopA \<noteq> None"
proof -
  have b: "parseJsonBody examplePlatform issueRequest = JObj [(''shop'', JStr shopA)]"
    by (simp add: parseJsonBody_def example_defs)
  have v: "isValidShopDomain (getProperty (parseJsonBody examplePlatform issueRequest) ''shop'') = Some True"
    by (simp add: b isValidShopDomain_JStr shopDomainRegex_def isAlnum_def shopA_def)
  have t: "toString (getProperty (parseJsonBody examplePlatform issueRequest) ''shop'') = Some shopA"
    by (simp add: b)
  have n: "kv_get (now emptyWorld) (SHOPS emptyWorld) shopA = None"
    by (simp add: kv_get_def emptyWorld_def)
  have old: "API_KEYS installedWorld ''key:uu''
       \<noteq> Some (\<lparr>keyShop = Some (JStr shopA), keyAccessToken = Some (JStr ''shpat_1''), createdAt = 100\<rparr>,
               Some 7776100)"
    by (simp add: installedWorld_def)
  from issuance_requires_installation [of examplePlatform issueRequest shopA emptyWorld exampleEnv] v t n
  have 1: "handleExtensionAuth examplePlatform exampleEnv issueRequest emptyWorld
     = (Inr (JsonResponse (JObj [(''error'', JStr APP_NOT_INSTALLED),
                                 (''install_url'', JStr ''https://apps.shopify.com/gateway'')]) 403),
        emptyWorld\<lparr>events := [KvGet NsShops shopA]\<rparr>)"
    by (simp add: exampleEnv_def emptyWorld_def)
  from issuance_requires_installation [of examplePlatform issueRequest _ installedWorld exampleEnv
        "''key:uu''" "\<lparr>keyShop = Some (JStr shopA), keyAccessToken = Some (JStr ''shpat_1''), createdAt = 100\<rparr>"
        "Some 7776100"] issue_installed old
  have 2: "kv_get (now installedWorld) (SHOPS installedWorld) shopA \<noteq> None"
    by simp
  from 1 2 issue_installed old show ?thesis by blast
qed

section \<open>Shop redaction\<close>

lemma truthy_not_null: "truthy (getProperty data name) \<Longrightarrow> data \<noteq> JNull"
  by auto

lemma handleWebhook_shop_redact:
  assumes "verifyWebhookHmac P (bodyText req) (hmacHeader req) (SHOPIFY_API_SECRET E)"
    and "JSON_parse P (bodyText req) = Inr data"
    and "truthy (getProperty data ''shop_domain'')"
    and "toString (getProperty data ''shop_domain'') = Some d"
  shows "handleWebhook P E req ''shop/redact'' w = (Inr (TextResponse [] 200), SHOPS_delete d w)"
  using assms truthy_not_null [OF assms(3)]
  by (simp add: handleWebhook_def handleShopRedact_def Let_def)

lemma kv_get_SHOPS_delete: "kv_get t (SHOPS (SHOPS_delete d w)) d = None"
  by (simp add: SHOPS_delete_def kv_get_delete)

text \<open>
  C7. For a webhook with the topic \<open>shop/redact\<close> whose signature verifies and whose
  parsed body carries a shop domain (a truthy value whose conversion to a string is
  \<open>d\<close>), \<open>handleWebhook\<close> acknowledges with status 200
  and the world it leaves is the one where the MerchantRecord of \<open>d\<close> has been deleted from
  \<open>SHOPS\<close>; a credential issuance for \<open>d\<close> that follows returns \<open>App not installed\<close>.
\<close>

theorem shop_redact_removes_record:
  assumes "verifyWebhookHmac P (bodyText req) (hmacHeader req) (SHOPIFY_API_SECRET E)"
    and "JSON_parse P (bodyText req) = Inr data"
    and "truthy (getProperty data ''shop_domain'')"
    and "toString (getProperty data ''shop_domain'') = Some d"
  shows "handleWebhook P E req ''shop/redact'' w = (Inr (TextResponse [] 200), SHOPS_delete d w)
         \<and> SHOPS (SHOPS_delete d w) d = None
         \<and> (\<forall>req2. isValidShopDomain (getProperty (parseJsonBody P req2) ''shop'') = Some True
                \<and> toString (getProperty (parseJsonBody P req2) ''shop'') = Some d
              \<longrightarrow> fst (handleExtensionAuth P E req2 (snd (handleWebhook P E req ''shop/redact'' w)))
                    = Inr (JsonResponse (JObj [(''error'', JStr APP_NOT_INSTALLED),
                                               (''install_url'', JStr (''https://apps.shopify.com/''
                                                                       @ SHOPIFY_APP_HANDLE E))]) 403))"
proof -
  have hook: "handleWebhook P E req ''shop/redact'' w = (Inr (TextResponse [] 200), SHOPS_delete d w)"
    using handleWebhook_shop_redact [OF assms] by simp
  have gone: "SHOPS (SHOPS_delete d w) d = None"
    by (simp add: SHOPS_delete_def kv_delete_def)
  have "fst (handleExtensionAuth P E req2 (snd (handleWebhook P E req ''shop/redact'' w)))
          = Inr (JsonResponse (JObj [(''error'', JStr APP_NOT_INSTALLED),
                                     (''install_url'', JStr (''https://apps.shopify.com/''
                                                             @ SHOPIFY_APP_HANDLE E))]) 403)"
    if v: "isValidShopDomain (getProperty (parseJsonBody P req2) ''shop'') = Some True"
      and e: "toString (getProperty (parseJsonBody P req2) ''shop'') = Some d" for req2
  proof -
    have "kv_get (now (SHOPS_delete d w)) (SHOPS (SHOPS_delete d w)) d = None"
      by (simp add: kv_get_SHOPS_delete)
    from handleExtensionAuth_not_installed [OF v e this] show ?thesis by (simp add: hook)
  qed
  with hook gone show ?thesis by blast
qed

lemma redactWebhook_verifies:
  "verifyWebhookHmac examplePlatform (bodyText redactWebhook) (hmacHeader redactWebhook)
     (SHOPIFY_API_SECRET exampleEnv)"
  by (simp add: verifyWebhookHmac_def timingSafeEqual_eq example_defs
      TextEncoder_encode_def encodeCodeUnit_def base64Alphabet_def)

theorem shop_redact_removes_record_witness:
  "kv_get (now installedWorld) (SHOPS installedWorld) shopA \<noteq> None
   \<and> handleWebhook examplePlatform exampleEnv redactWebhook ''shop/redact'' installedWorld
       = (Inr (TextResponse [] 200), SHOPS_delete shopA installedWorld)
   \<and> SHOPS (SHOPS_delete shopA installedWorld) shopA = None
   \<and> fst (handleExtensionAuth examplePlatform exampleEnv issueRequest
            (snd (handleWebhook examplePlatform exampleEnv redactWebhook ''shop/redact'' installedWorld)))
       = Inr (JsonResponse (JObj [(''error'', JStr APP_NOT_INSTALLED),
                                  (''install_url'', JStr ''https://apps.shopify.com/gateway'')]) 403)"
proof -
  have p: "JSON_parse examplePlatform (bodyText redactWebhook) = Inr (JObj [(''shop_domain'', JStr shopA)])"
    by (simp add: example_defs)
  have t: "truthy (getProperty (JObj [(''shop_domain'', JStr shopA)]) ''shop_domain'')"
    by (simp add: shopA_def)
  have d: "toString (getProperty (JObj [(''shop_domain'', JStr shopA)]) ''shop_domain'') = Some shopA"
    by simp
  have b: "parseJsonBody examplePlatform issueRequest = JObj [(''shop'', JStr shopA)]"
    by (simp add: parseJsonBody_def example_defs)
  have v: "isValidShopDomain (getProperty (parseJsonBody examplePlatform issueRequest) ''shop'') = Some True"
    by (simp add: b isValidShopDomain_JStr shopDomainRegex_def isAlnum_def shopA_def)
  have e: "toString (getProperty (parseJsonBody examplePlatform issueRequest) ''shop'') = Some shopA"
    by (simp add: b)
  have i: "kv_get (now installedWorld) (SHOPS installedWorld) shopA \<noteq> None"
    by (simp add: kv_get_def installedWorld_def)
  have h: "SHOPIFY_APP_HANDLE exampleEnv = ''gateway''" by (simp add: exampleEnv_def)
  from shop_redact_removes_record [OF redactWebhook_verifies p t d, of installedWorld] v e i
  show ?thesis unfolding h by auto
qed

section \<open>Client credentials outlive the redaction\<close>











text \<open>
  When the endpoint of the request is an object with a \<open>toString\<close> entry, the template
  of the URL throws: the same key is accepted, nothing is sent upstream, and the proxy
  answers with status 500.
\<close>

lemma handleAPIProxy_object_endpoint:
  "handleAPIProxy examplePlatform exampleEnv (objectEndpointRequest (Some ''Bearer k1''))
       (SHOPS_delete shopA installedWorld)
     = (Inr (JsonResponse (JObj [(''error'', JStr FAILED_PROXY),
                                 (''details'', JStr ''Cannot convert object to primitive value'')]) 500),
        (SHOPS_delete shopA installedWorld)
          \<lparr>events := events (SHOPS_delete shopA installedWorld) @ [KvGet NsApiKeys ''key:k1'']\<rparr>)"
  by (simp add: handleAPIProxy_def API_KEYS_get_def Let_def proxyToShopify_def proxyOptions_def
      extractApiKey_def parseJsonBody_def kv_get_def SHOPS_delete_def example_defs)

end
